theory Spec2Isabelle
  imports Complex_Main
begin

section \<open>Flocker.h: the flocking engine\<close>

text \<open>
  A shallow embedding of \<^verbatim>\<open>src/FlockingBehavior/Flocker.h\<close>.

  Numbers. The source computes in IEEE single precision. The embedding computes in the
  reals: every \<^verbatim>\<open>float\<close> is a \<^typ>\<open>real\<close>, every arithmetic operation is exact, and
  \<^verbatim>\<open>static_cast<int>\<close> is truncation toward zero into the unbounded integers. Rounding,
  overflow and the spacing of large floats are therefore outside the model; the
  tolerance the specification writes as an added epsilon stands for exactly that, and the
  bounds proved below are the exact ones. The spatial index and the neighbourhood query
  are given a second time with every operation followed by a rounding function, because
  which agents the query returns depends on the rounding. A NaN is not a real number. Where the source
  can produce one and then branches on it (the avoidance direction, whose NaN fails the
  \<^verbatim>\<open>length(target) > 0.001f\<close> test of the integrator), the model returns it as an
  error value. The two other places where IEEE arithmetic leaves the reals are
  \<^verbatim>\<open>clampLength\<close> of the zero vector to a negative length (it normalises the zero
  vector) and a cell size of zero in \<^verbatim>\<open>getVoxelForBoid\<close> (it casts an infinite quotient
  to \<^verbatim>\<open>int\<close>). The theorems below either exclude these inputs by a hypothesis or do not
  depend on the value the model takes there.

  Memory. \<^verbatim>\<open>std::vector<Boid> *boids\<close> is the list \<open>boids\<close> of the state, and a
  \<^verbatim>\<open>Boid*\<close> into it is an index. Loops over the vector update it in place, as the
  source does.
\<close>

subsection \<open>glm::vec3\<close>

datatype vec3 = Vec3 (vx: real) (vy: real) (vz: real)

instantiation vec3 :: "{zero, plus, minus, uminus}"
begin

definition zero_vec3 :: vec3 where
  "zero_vec3 = Vec3 0 0 0"

definition plus_vec3 :: "vec3 \<Rightarrow> vec3 \<Rightarrow> vec3" where
  "plus_vec3 a b = Vec3 (vx a + vx b) (vy a + vy b) (vz a + vz b)"

definition minus_vec3 :: "vec3 \<Rightarrow> vec3 \<Rightarrow> vec3" where
  "minus_vec3 a b = Vec3 (vx a - vx b) (vy a - vy b) (vz a - vz b)"

definition uminus_vec3 :: "vec3 \<Rightarrow> vec3" where
  "uminus_vec3 a = Vec3 (- vx a) (- vy a) (- vz a)"

instance ..

end

definition smul :: "real \<Rightarrow> vec3 \<Rightarrow> vec3" where
  \<comment> \<open>\<^verbatim>\<open>float * vec3\<close> and \<^verbatim>\<open>vec3 * float\<close>\<close>
  "smul k a = Vec3 (k * vx a) (k * vy a) (k * vz a)"

definition vdiv :: "vec3 \<Rightarrow> real \<Rightarrow> vec3" where
  \<comment> \<open>\<^verbatim>\<open>vec3 / float\<close>\<close>
  "vdiv a k = Vec3 (vx a / k) (vy a / k) (vz a / k)"

definition dot :: "vec3 \<Rightarrow> vec3 \<Rightarrow> real" where
  "dot a b = vx a * vx b + vy a * vy b + vz a * vz b"

definition cross :: "vec3 \<Rightarrow> vec3 \<Rightarrow> vec3" where
  "cross a b = Vec3 (vy a * vz b - vz a * vy b)
                    (vz a * vx b - vx a * vz b)
                    (vx a * vy b - vy a * vx b)"

definition length2 :: "vec3 \<Rightarrow> real" where
  "length2 a = dot a a"

definition vlength :: "vec3 \<Rightarrow> real" where
  \<comment> \<open>\<^verbatim>\<open>glm::length\<close>\<close>
  "vlength a = sqrt (dot a a)"

definition normalize :: "vec3 \<Rightarrow> vec3" where
  \<comment> \<open>\<^verbatim>\<open>glm::normalize\<close>: \<^verbatim>\<open>v * inversesqrt(dot(v, v))\<close>\<close>
  "normalize a = smul (1 / sqrt (dot a a)) a"

definition any_equal :: "vec3 \<Rightarrow> vec3 \<Rightarrow> bool" where
  \<comment> \<open>\<^verbatim>\<open>glm::any(glm::equal(a, b))\<close>: some component of \<open>a\<close> equals that of \<open>b\<close>\<close>
  "any_equal a b \<longleftrightarrow> vx a = vx b \<or> vy a = vy b \<or> vz a = vz b"

subsection \<open>Constants, helpers and the random engine\<close>

definition TWO_PI :: real where
  "TWO_PI = 628318530717958647692 / 100000000000000000000"

datatype DistanceType = LINEAR | INVERSE_LINEAR | QUADRATIC | INVERSE_QUADRATIC

definition clampLength :: "vec3 \<Rightarrow> real \<Rightarrow> vec3" where
  "clampLength v len =
     (if vlength v > len then smul len (normalize v) else v)"

text \<open>
  \<^verbatim>\<open>std::mt19937\<close> is modelled by the stream of canonical draws from \<open>[0, 1)\<close> that it
  is going to deliver; a \<^verbatim>\<open>uniform_real_distribution(a, b)\<close> scales the next one.
\<close>

type_synonym mt19937 = "nat \<Rightarrow> real"

definition uniform_real :: "real \<Rightarrow> real \<Rightarrow> mt19937 \<Rightarrow> real \<times> mt19937" where
  "uniform_real a b e = (a + (b - a) * e 0, \<lambda>n. e (Suc n))"

definition getRandomUniform :: "mt19937 \<Rightarrow> vec3 \<times> mt19937" where
  "getRandomUniform e =
     (let (theta, e1) = uniform_real 0 TWO_PI e;
          (u, e2) = uniform_real 0 1 e1;
          r = sqrt u;
          (w, e3) = uniform_real 0 1 e2;
          z = sqrt (1 - r * r) * (if w > 0.5 then - 1 else 1)
      in (Vec3 (r * cos theta) (r * sin theta) z, e3))"

definition trunc_int :: "real \<Rightarrow> int" where
  \<comment> \<open>\<^verbatim>\<open>static_cast<int>\<close>: the fractional part is discarded\<close>
  "trunc_int r = (if 0 \<le> r then \<lfloor>r\<rfloor> else \<lceil>r\<rceil>)"

subsection \<open>Boid, NearbyBoid and the Flocker state\<close>

record Boid =
  position :: vec3
  velocity :: vec3
  acceleration :: vec3
  motion_normal :: vec3
  size_boid :: real
  avoidance :: bool

definition new_Boid :: "vec3 \<Rightarrow> vec3 \<Rightarrow> Boid" where
  \<comment> \<open>the constructor \<^verbatim>\<open>Boid(pos, vel)\<close> with the default member initialisers\<close>
  "new_Boid pos vel =
     \<lparr>position = pos, velocity = vel, acceleration = 0,
      motion_normal = Vec3 0 0 1, size_boid = 1, avoidance = False\<rparr>"

record NearbyBoid =
  boid :: nat
  direction :: vec3
  distance :: real

record Flocker =
  PerceptionRadius :: real
  SeparationWeight :: real
  SeparationType :: DistanceType
  AlignmentWeight :: real
  CohesionWeight :: real
  SteeringWeight :: real
  SteeringTargets :: "vec3 list"
  SteeringTargetType :: DistanceType
  FOVAngleDeg :: real
  MaxAcceleration :: real
  MaxVelocity :: real
  CollisionRadius :: real
  CollisionCenter :: vec3
  boids :: "Boid list"
  voxelCache :: "vec3 \<rightharpoonup> nat list"
  eng :: mt19937
  FOVAngleDegCompareValue :: real

definition new_Flocker :: "Boid list \<Rightarrow> vec3 \<Rightarrow> mt19937 \<Rightarrow> Flocker" where
  \<comment> \<open>\<^verbatim>\<open>Flocker(entities)\<close> with the default member initialisers; the collision centre,
      which the class leaves uninitialised, and the seeded engine are parameters\<close>
  "new_Flocker entities center e =
     \<lparr>PerceptionRadius = 30,
      SeparationWeight = 3.5, SeparationType = INVERSE_QUADRATIC,
      AlignmentWeight = 0.1, CohesionWeight = 1,
      SteeringWeight = 4, SteeringTargets = [], SteeringTargetType = LINEAR,
      FOVAngleDeg = 20, MaxAcceleration = 5, MaxVelocity = 5,
      CollisionRadius = 1, CollisionCenter = center,
      boids = entities, voxelCache = Map.empty, eng = e,
      FOVAngleDegCompareValue = 0\<rparr>"

subsection \<open>The spatial index\<close>

definition getVoxelForBoid :: "Flocker \<Rightarrow> Boid \<Rightarrow> vec3" where
  "getVoxelForBoid F b =
     (let radius = \<bar>PerceptionRadius F\<bar>;
          p = position b
      in Vec3 (of_int (trunc_int (vx p / radius)))
              (of_int (trunc_int (vy p / radius)))
              (of_int (trunc_int (vz p / radius))))"

definition cache_push :: "Flocker \<Rightarrow> nat \<Rightarrow> (vec3 \<rightharpoonup> nat list) \<Rightarrow> (vec3 \<rightharpoonup> nat list)" where
  \<comment> \<open>\<^verbatim>\<open>voxelCache[getVoxelForBoid(b)].push_back(&b)\<close>\<close>
  "cache_push F i m =
     (let k = getVoxelForBoid F (boids F ! i)
      in m(k \<mapsto> (case m k of None \<Rightarrow> [] | Some l \<Rightarrow> l) @ [i]))"

definition buildVoxelCache :: "Flocker \<Rightarrow> Flocker" where
  "buildVoxelCache F =
     F\<lparr>voxelCache := fold (cache_push F) [0..<length (boids F)] Map.empty\<rparr>"

subsection \<open>The neighbourhood query\<close>

definition compareValue :: "Boid \<Rightarrow> vec3 \<Rightarrow> real" where
  "compareValue b vec =
     (let l1 = vlength vec; l2 = vlength (velocity b)
      in if l1 \<noteq> 0 \<and> l2 \<noteq> 0 then dot (- velocity b) vec / (l1 * l2) else 0)"

definition perceives :: "Flocker \<Rightarrow> nat \<Rightarrow> nat \<Rightarrow> bool" where
  \<comment> \<open>the condition of the \<^verbatim>\<open>if\<close> in \<^verbatim>\<open>checkVoxelForBoids\<close>, for \<open>b\<close> at index \<open>i\<close>
      and \<open>test\<close> at index \<open>t\<close>\<close>
  "perceives F i t =
     (let b = boids F ! i;
          vec = position (boids F ! t) - position b
      in i \<noteq> t \<and> vlength vec \<le> PerceptionRadius F \<and>
         (FOVAngleDegCompareValue F > compareValue b vec \<or> vlength (velocity b) = 0))"

definition make_nearby :: "Flocker \<Rightarrow> nat \<Rightarrow> nat \<Rightarrow> NearbyBoid" where
  "make_nearby F i t =
     (let vec = position (boids F ! t) - position (boids F ! i)
      in \<lparr>boid = t, direction = vec, distance = vlength vec\<rparr>)"

definition checkVoxelForBoids :: "Flocker \<Rightarrow> nat \<Rightarrow> NearbyBoid list \<Rightarrow> vec3 \<Rightarrow> NearbyBoid list" where
  "checkVoxelForBoids F i result voxelPos =
     (case voxelCache F voxelPos of
        None \<Rightarrow> result
      | Some tests \<Rightarrow>
          fold (\<lambda>t res. if perceives F i t then res @ [make_nearby F i t] else res)
               tests result)"

definition nearby_loop_z :: "Flocker \<Rightarrow> nat \<Rightarrow> nat \<Rightarrow> vec3 \<times> NearbyBoid list \<Rightarrow> vec3 \<times> NearbyBoid list" where
  \<comment> \<open>the body of the loop over \<open>z\<close>: the call, then \<^verbatim>\<open>voxelPos.z++\<close>\<close>
  "nearby_loop_z F i z =
     (\<lambda>(voxelPos, result). (voxelPos + Vec3 0 0 1, checkVoxelForBoids F i result voxelPos))"

definition nearby_loop_y :: "Flocker \<Rightarrow> nat \<Rightarrow> nat \<Rightarrow> vec3 \<times> NearbyBoid list \<Rightarrow> vec3 \<times> NearbyBoid list" where
  \<comment> \<open>the body of the loop over \<open>y\<close>: the inner loop, \<^verbatim>\<open>voxelPos.z -= 3\<close>,
      \<^verbatim>\<open>voxelPos.y++\<close>\<close>
  "nearby_loop_y F i y =
     (\<lambda>(voxelPos, result).
        (let (vp1, res1) = fold (nearby_loop_z F i) [0..<3] (voxelPos, result)
         in (vp1 - Vec3 0 0 3 + Vec3 0 1 0, res1)))"

definition nearby_loop_x :: "Flocker \<Rightarrow> nat \<Rightarrow> nat \<Rightarrow> vec3 \<times> NearbyBoid list \<Rightarrow> vec3 \<times> NearbyBoid list" where
  \<comment> \<open>the body of the loop over \<open>x\<close>: the inner loops, \<^verbatim>\<open>voxelPos.y -= 3\<close>,
      \<^verbatim>\<open>voxelPos.x++\<close>\<close>
  "nearby_loop_x F i x =
     (\<lambda>(voxelPos, result).
        (let (vp1, res1) = fold (nearby_loop_y F i) [0..<3] (voxelPos, result)
         in (vp1 - Vec3 0 3 0 + Vec3 1 0 0, res1)))"

definition getNearbyBoids :: "Flocker \<Rightarrow> nat \<Rightarrow> NearbyBoid list" where
  "getNearbyBoids F i =
     snd (fold (nearby_loop_x F i) [0..<3]
            (getVoxelForBoid F (boids F ! i) - Vec3 1 1 1, []))"

subsection \<open>The force engine\<close>

definition transformDistance :: "real \<Rightarrow> DistanceType \<Rightarrow> real" where
  "transformDistance d type =
     (case type of
        LINEAR \<Rightarrow> d
      | INVERSE_LINEAR \<Rightarrow> (if d = 0 then 0 else 1 / d)
      | QUADRATIC \<Rightarrow> d\<^sup>2
      | INVERSE_QUADRATIC \<Rightarrow> (let quad = d\<^sup>2 in if quad = 0 then 0 else 1 / quad))"

definition nearbySums :: "Flocker \<Rightarrow> NearbyBoid list \<Rightarrow> vec3 \<times> vec3 \<times> vec3 \<times> mt19937" where
  \<comment> \<open>the loop over \<open>nearby\<close>: \<open>(separationSum, headingSum, positionSum)\<close> and the engine\<close>
  "nearbySums F nearby =
     fold (\<lambda>closeBoid (separationSum, headingSum, positionSum, e).
             (let (sep, e1) =
                    (if distance closeBoid = 0
                     then (let (rv, e1) = getRandomUniform e
                           in (separationSum + smul 1000 rv, e1))
                     else (let separationFactor =
                                 transformDistance (distance closeBoid) (SeparationType F)
                           in (separationSum + smul separationFactor (- direction closeBoid), e)))
              in (sep,
                  headingSum + velocity (boids F ! boid closeBoid),
                  positionSum + position (boids F ! boid closeBoid),
                  e1)))
          nearby (0, 0, 0, eng F)"

definition chooseTarget :: "Flocker \<Rightarrow> Boid \<Rightarrow> vec3 \<times> real" where
  \<comment> \<open>the loop over \<open>SteeringTargets\<close>: \<open>(steeringTarget, targetDistance)\<close>\<close>
  "chooseTarget F b =
     fold (\<lambda>target (steeringTarget, targetDistance).
             (let d = transformDistance (vlength (position b - target)) (SteeringTargetType F)
              in if targetDistance < 0 \<or> d < targetDistance
                 then (target, d) else (steeringTarget, targetDistance)))
          (SteeringTargets F) (position b, - 1)"

definition steering :: "Flocker \<Rightarrow> Boid \<Rightarrow> vec3" where
  "steering F b =
     (let (steeringTarget, targetDistance) = chooseTarget F b
      in if \<not> any_equal steeringTarget (position b)
         then smul targetDistance (normalize (steeringTarget - position b))
         else 0)"

definition weightedSum :: "Flocker \<Rightarrow> nat \<Rightarrow> vec3" where
  \<comment> \<open>the local \<open>acceleration\<close> of \<^verbatim>\<open>updateBoid\<close> before it is clamped\<close>
  "weightedSum F i =
     (let b = boids F ! i;
          nearby = getNearbyBoids F i;
          (separationSum, headingSum, positionSum, e) = nearbySums F nearby;
          n = length nearby;
          separation = (if n > 0 then vdiv separationSum (real n) else separationSum);
          alignment = (if n > 0 then vdiv headingSum (real n) else headingSum);
          avgPosition = (if n > 0 then vdiv positionSum (real n) else position b);
          cohesion = avgPosition - position b
      in 0 + smul (SeparationWeight F) separation
           + smul (AlignmentWeight F) alignment
           + smul (CohesionWeight F) cohesion
           + smul (SteeringWeight F) (steering F b))"

definition updateBoid :: "nat \<Rightarrow> Flocker \<Rightarrow> Flocker" where
  "updateBoid i F =
     (let (separationSum, headingSum, positionSum, e) = nearbySums F (getNearbyBoids F i)
      in F\<lparr>boids := (boids F)
                [i := (boids F ! i)\<lparr>acceleration :=
                         clampLength (weightedSum F i) (MaxAcceleration F)\<rparr>],
           eng := e\<rparr>)"

definition updateAcceleration :: "Flocker \<Rightarrow> Flocker" where
  "updateAcceleration F =
     (let F1 = (if PerceptionRadius F = 0 then F\<lparr>PerceptionRadius := 1\<rparr> else F);
          F2 = buildVoxelCache F1
      in fold updateBoid [0..<length (boids F2)] F2)"

subsection \<open>Obstacle avoidance\<close>

datatype nan_cause = SqrtOfNegative | ZeroDividedByZero

definition avoidanceDirection :: "Flocker \<Rightarrow> Boid \<Rightarrow> (nan_cause + vec3) \<times> Boid" where
  \<comment> \<open>The returned vector, or the reason why all its components are NaN, and the boid
      with its \<open>avoidance\<close> flag set. The conjunction of the seeing check is
      short-circuit, so the root of \<open>delta\<close> is taken, there and in the range check, only
      when \<open>delta \<ge> 0\<close>. With \<open>a = 0\<close> the velocity is zero, so the range
      check compares \<open>0 / 0\<close>, which is NaN, and a comparison with NaN is false. With
      \<open>CPlength = 0\<close> the quotient \<open>s / CPlength\<close> is \<open>0 / 0\<close> when \<open>s = 0\<close> and is
      infinite otherwise, and then \<open>1 - sin_theta\<^sup>2\<close>, negative and infinite, goes into
      the square root.\<close>
  "avoidanceDirection F bd =
     (let R = CollisionRadius F + 0.5;
          r2 = R * R;
          a = length2 (velocity bd);
          b = dot (smul 2 (velocity bd)) (position bd - CollisionCenter F);
          c = length2 (position bd - CollisionCenter F) - r2;
          delta = b * b - 4 * a * c
      in if \<not> (delta \<ge> 0 \<and> b + sqrt delta \<le> 0)
         then (Inr (velocity bd), bd\<lparr>avoidance := False\<rparr>)
         else if a \<noteq> 0 \<and> - (b + sqrt delta) * vlength (velocity bd) / (2 * a) \<ge> R
         then (Inr (velocity bd), bd\<lparr>avoidance := False\<rparr>)
         else
           (let bd1 = bd\<lparr>avoidance := True\<rparr>;
                d = dot (motion_normal bd) (CollisionCenter F - position bd);
                C = CollisionCenter F - smul d (motion_normal bd);
                sgn = (if dot (motion_normal bd) (cross (C - position bd) (velocity bd)) > 0
                       then 1 else - 1);
                CPlength = vlength (C - position bd)
            in if r2 - d\<^sup>2 < 0 then (Inl SqrtOfNegative, bd1)
               else
                 (let s = sqrt (r2 - d\<^sup>2)
                  in if CPlength = 0
                     then (Inl (if s = 0 then ZeroDividedByZero else SqrtOfNegative), bd1)
                     else
                       (let sin_theta = s / CPlength
                        in if 1 - sin_theta * sin_theta < 0 then (Inl SqrtOfNegative, bd1)
                           else
                             (let cos_theta = sqrt (1 - sin_theta * sin_theta);
                                  u = vdiv (smul cos_theta (C - position bd)) CPlength
                                      + vdiv (smul (sgn * sin_theta)
                                                (cross (motion_normal bd) (C - position bd)))
                                             CPlength
                              in (Inr u, bd1))))))"

subsection \<open>The integrator\<close>

definition RESPONSE :: real where
  "RESPONSE = 0.1"

definition safetyCorrection :: "Flocker \<Rightarrow> Boid \<Rightarrow> vec3" where
  \<comment> \<open>the right-hand side of \<^verbatim>\<open>boid.velocity += 0.1f * boid.position - CollisionCenter\<close>\<close>
  "safetyCorrection F bd = smul 0.1 (position bd) - CollisionCenter F"

definition insideSphere :: "Flocker \<Rightarrow> vec3 \<Rightarrow> bool" where
  "insideSphere F p \<longleftrightarrow>
     length2 (p - CollisionCenter F) < CollisionRadius F * CollisionRadius F"

definition integrate :: "real \<Rightarrow> Flocker \<Rightarrow> Boid \<Rightarrow> Boid" where
  \<comment> \<open>the body of the loop of \<^verbatim>\<open>update\<close>\<close>
  "integrate dt F bd =
     (let (target, b1) = avoidanceDirection F bd;
          b2 = (case target of
                  Inl nan \<Rightarrow> b1
                | Inr t \<Rightarrow>
                    if vlength t > 0.001 \<and> avoidance b1
                    then b1\<lparr>velocity := velocity b1
                             + vdiv (smul dt (smul (vlength (velocity b1)) t - velocity b1))
                                    RESPONSE\<rparr>
                    else b1);
          b3 = b2\<lparr>velocity := clampLength (velocity b2 + smul dt (acceleration b2))
                                           (MaxVelocity F)\<rparr>;
          b4 = b3\<lparr>position := position b3 + smul dt (velocity b3)\<rparr>
      in if insideSphere F (position b4)
         then b4\<lparr>velocity := velocity b4 + safetyCorrection F b4\<rparr>
         else b4)"

definition update :: "real \<Rightarrow> Flocker \<Rightarrow> Flocker" where
  "update dt F =
     (let F1 = F\<lparr>FOVAngleDegCompareValue := cos (TWO_PI * FOVAngleDeg F / 360)\<rparr>;
          F2 = updateAcceleration F1
      in fold (\<lambda>i G. G\<lparr>boids := (boids G)[i := integrate dt G (boids G ! i)]\<rparr>)
              [0..<length (boids F2)] F2)"

subsection \<open>The brute-force scan\<close>

definition bruteForceNeighbors :: "Flocker \<Rightarrow> nat \<Rightarrow> NearbyBoid list" where
  \<comment> \<open>The specification's reference query: a scan over the whole collection that
      applies the identical distance and field-of-view predicate to every agent.\<close>
  "bruteForceNeighbors F i =
     map (make_nearby F i) (filter (perceives F i) [0..<length (boids F)])"

subsection \<open>Auxiliary notions used in the proofs\<close>

definition cached :: "(vec3 \<rightharpoonup> nat list) \<Rightarrow> vec3 \<Rightarrow> nat list" where
  \<comment> \<open>the bucket of a cell, empty when the map has no entry for it\<close>
  "cached m k = (case m k of None \<Rightarrow> [] | Some l \<Rightarrow> l)"

definition cell_hits :: "Flocker \<Rightarrow> nat \<Rightarrow> vec3 \<Rightarrow> NearbyBoid list" where
  \<comment> \<open>what one call of \<^verbatim>\<open>checkVoxelForBoids\<close> appends\<close>
  "cell_hits F i k = map (make_nearby F i) (filter (perceives F i) (cached (voxelCache F) k))"

definition column_hits :: "Flocker \<Rightarrow> nat \<Rightarrow> vec3 \<Rightarrow> NearbyBoid list" where
  \<comment> \<open>what one run of the loop over \<open>z\<close> appends\<close>
  "column_hits F i vp =
     concat (map (\<lambda>k. cell_hits F i (Vec3 (vx vp) (vy vp) (vz vp + real k))) [0..<3])"

definition slab_hits :: "Flocker \<Rightarrow> nat \<Rightarrow> vec3 \<Rightarrow> NearbyBoid list" where
  \<comment> \<open>what one run of the loop over \<open>y\<close> appends\<close>
  "slab_hits F i vp =
     concat (map (\<lambda>k. column_hits F i (Vec3 (vx vp) (vy vp + real k) (vz vp))) [0..<3])"

definition same_motion :: "Boid \<Rightarrow> Boid \<Rightarrow> bool" where
  \<comment> \<open>the second boid is the first one with another acceleration\<close>
  "same_motion b b' \<longleftrightarrow> b' = b\<lparr>acceleration := acceleration b'\<rparr>"

subsection \<open>The neighbourhood query in rounded arithmetic\<close>

text \<open>
  The spatial index and the neighbourhood query once more, with the result of every
  floating-point operation passed through a rounding function \<open>rnd\<close> (the float nearest
  to the exact result). The identity gives back the definitions above; \<open>binary32\<close> below
  is the rounding of the source's \<^verbatim>\<open>float\<close>. \<^verbatim>\<open>glm::dot\<close> multiplies component-wise and
  adds \<open>x\<close>, \<open>y\<close>, \<open>z\<close> in this order, \<^verbatim>\<open>glm::length\<close> is the square root of \<^verbatim>\<open>glm::dot\<close>,
  negation and \<^verbatim>\<open>std::abs\<close> are exact, and the conversion from \<^verbatim>\<open>int\<close> back to \<^verbatim>\<open>float\<close>
  rounds.
\<close>

definition rsub :: "(real \<Rightarrow> real) \<Rightarrow> vec3 \<Rightarrow> vec3 \<Rightarrow> vec3" where
  "rsub rnd a b = Vec3 (rnd (vx a - vx b)) (rnd (vy a - vy b)) (rnd (vz a - vz b))"

definition rdot :: "(real \<Rightarrow> real) \<Rightarrow> vec3 \<Rightarrow> vec3 \<Rightarrow> real" where
  "rdot rnd a b = rnd (rnd (rnd (vx a * vx b) + rnd (vy a * vy b)) + rnd (vz a * vz b))"

definition rlength :: "(real \<Rightarrow> real) \<Rightarrow> vec3 \<Rightarrow> real" where
  "rlength rnd a = rnd (sqrt (rdot rnd a a))"

definition getVoxelForBoid_r :: "(real \<Rightarrow> real) \<Rightarrow> Flocker \<Rightarrow> Boid \<Rightarrow> vec3" where
  "getVoxelForBoid_r rnd F b =
     (let radius = \<bar>PerceptionRadius F\<bar>;
          p = position b
      in Vec3 (rnd (of_int (trunc_int (rnd (vx p / radius)))))
              (rnd (of_int (trunc_int (rnd (vy p / radius)))))
              (rnd (of_int (trunc_int (rnd (vz p / radius))))))"

definition cache_push_r :: "(real \<Rightarrow> real) \<Rightarrow> Flocker \<Rightarrow> nat \<Rightarrow> (vec3 \<rightharpoonup> nat list) \<Rightarrow> (vec3 \<rightharpoonup> nat list)" where
  "cache_push_r rnd F i m =
     (let k = getVoxelForBoid_r rnd F (boids F ! i)
      in m(k \<mapsto> (case m k of None \<Rightarrow> [] | Some l \<Rightarrow> l) @ [i]))"

definition buildVoxelCache_r :: "(real \<Rightarrow> real) \<Rightarrow> Flocker \<Rightarrow> Flocker" where
  "buildVoxelCache_r rnd F =
     F\<lparr>voxelCache := fold (cache_push_r rnd F) [0..<length (boids F)] Map.empty\<rparr>"

definition compareValue_r :: "(real \<Rightarrow> real) \<Rightarrow> Boid \<Rightarrow> vec3 \<Rightarrow> real" where
  "compareValue_r rnd b vec =
     (let l1 = rlength rnd vec; l2 = rlength rnd (velocity b)
      in if l1 \<noteq> 0 \<and> l2 \<noteq> 0
         then rnd (rdot rnd (- velocity b) vec / rnd (l1 * l2)) else 0)"

definition perceives_r :: "(real \<Rightarrow> real) \<Rightarrow> Flocker \<Rightarrow> nat \<Rightarrow> nat \<Rightarrow> bool" where
  "perceives_r rnd F i t =
     (let b = boids F ! i;
          vec = rsub rnd (position (boids F ! t)) (position b)
      in i \<noteq> t \<and> rlength rnd vec \<le> PerceptionRadius F \<and>
         (FOVAngleDegCompareValue F > compareValue_r rnd b vec
          \<or> rlength rnd (velocity b) = 0))"

definition make_nearby_r :: "(real \<Rightarrow> real) \<Rightarrow> Flocker \<Rightarrow> nat \<Rightarrow> nat \<Rightarrow> NearbyBoid" where
  "make_nearby_r rnd F i t =
     (let vec = rsub rnd (position (boids F ! t)) (position (boids F ! i))
      in \<lparr>boid = t, direction = vec, distance = rlength rnd vec\<rparr>)"

definition checkVoxelForBoids_r :: "(real \<Rightarrow> real) \<Rightarrow> Flocker \<Rightarrow> nat \<Rightarrow> NearbyBoid list \<Rightarrow> vec3 \<Rightarrow> NearbyBoid list" where
  "checkVoxelForBoids_r rnd F i result voxelPos =
     (case voxelCache F voxelPos of
        None \<Rightarrow> result
      | Some tests \<Rightarrow>
          fold (\<lambda>t res. if perceives_r rnd F i t then res @ [make_nearby_r rnd F i t] else res)
               tests result)"

definition voxel_x_add :: "(real \<Rightarrow> real) \<Rightarrow> real \<Rightarrow> vec3 \<Rightarrow> vec3" where
  \<comment> \<open>\<^verbatim>\<open>voxelPos.x -= 1\<close>, \<^verbatim>\<open>voxelPos.x++\<close>\<close>
  "voxel_x_add rnd k vp = Vec3 (rnd (vx vp + k)) (vy vp) (vz vp)"

definition voxel_y_add :: "(real \<Rightarrow> real) \<Rightarrow> real \<Rightarrow> vec3 \<Rightarrow> vec3" where
  \<comment> \<open>\<^verbatim>\<open>voxelPos.y -= 1\<close>, \<^verbatim>\<open>voxelPos.y++\<close>, \<^verbatim>\<open>voxelPos.y -= 3\<close>\<close>
  "voxel_y_add rnd k vp = Vec3 (vx vp) (rnd (vy vp + k)) (vz vp)"

definition voxel_z_add :: "(real \<Rightarrow> real) \<Rightarrow> real \<Rightarrow> vec3 \<Rightarrow> vec3" where
  \<comment> \<open>\<^verbatim>\<open>voxelPos.z -= 1\<close>, \<^verbatim>\<open>voxelPos.z++\<close>, \<^verbatim>\<open>voxelPos.z -= 3\<close>\<close>
  "voxel_z_add rnd k vp = Vec3 (vx vp) (vy vp) (rnd (vz vp + k))"

definition nearby_loop_z_r :: "(real \<Rightarrow> real) \<Rightarrow> Flocker \<Rightarrow> nat \<Rightarrow> nat \<Rightarrow> vec3 \<times> NearbyBoid list \<Rightarrow> vec3 \<times> NearbyBoid list" where
  "nearby_loop_z_r rnd F i z =
     (\<lambda>(voxelPos, result).
        (voxel_z_add rnd 1 voxelPos, checkVoxelForBoids_r rnd F i result voxelPos))"

definition nearby_loop_y_r :: "(real \<Rightarrow> real) \<Rightarrow> Flocker \<Rightarrow> nat \<Rightarrow> nat \<Rightarrow> vec3 \<times> NearbyBoid list \<Rightarrow> vec3 \<times> NearbyBoid list" where
  "nearby_loop_y_r rnd F i y =
     (\<lambda>(voxelPos, result).
        (let (vp1, res1) = fold (nearby_loop_z_r rnd F i) [0..<3] (voxelPos, result)
         in (voxel_y_add rnd 1 (voxel_z_add rnd (- 3) vp1), res1)))"

definition nearby_loop_x_r :: "(real \<Rightarrow> real) \<Rightarrow> Flocker \<Rightarrow> nat \<Rightarrow> nat \<Rightarrow> vec3 \<times> NearbyBoid list \<Rightarrow> vec3 \<times> NearbyBoid list" where
  "nearby_loop_x_r rnd F i x =
     (\<lambda>(voxelPos, result).
        (let (vp1, res1) = fold (nearby_loop_y_r rnd F i) [0..<3] (voxelPos, result)
         in (voxel_x_add rnd 1 (voxel_y_add rnd (- 3) vp1), res1)))"

definition first_voxel :: "(real \<Rightarrow> real) \<Rightarrow> Flocker \<Rightarrow> nat \<Rightarrow> vec3" where
  \<comment> \<open>\<open>voxelPos\<close> when the loops of \<^verbatim>\<open>getNearbyBoids\<close> start\<close>
  "first_voxel rnd F i =
     voxel_z_add rnd (- 1) (voxel_y_add rnd (- 1) (voxel_x_add rnd (- 1)
       (getVoxelForBoid_r rnd F (boids F ! i))))"

definition getNearbyBoids_r :: "(real \<Rightarrow> real) \<Rightarrow> Flocker \<Rightarrow> nat \<Rightarrow> NearbyBoid list" where
  "getNearbyBoids_r rnd F i =
     snd (fold (nearby_loop_x_r rnd F i) [0..<3] (first_voxel rnd F i, []))"

definition bruteForceNeighbors_r :: "(real \<Rightarrow> real) \<Rightarrow> Flocker \<Rightarrow> nat \<Rightarrow> NearbyBoid list" where
  \<comment> \<open>the specification's reference query, in the same arithmetic\<close>
  "bruteForceNeighbors_r rnd F i =
     map (make_nearby_r rnd F i) (filter (perceives_r rnd F i) [0..<length (boids F)])"

definition next_column :: "(real \<Rightarrow> real) \<Rightarrow> vec3 \<Rightarrow> vec3" where
  \<comment> \<open>\<open>voxelPos\<close> after one run of the body of the loop over \<open>y\<close>\<close>
  "next_column rnd vp = voxel_y_add rnd 1 (voxel_z_add rnd (- 3) ((voxel_z_add rnd 1 ^^ 3) vp))"

definition next_slab :: "(real \<Rightarrow> real) \<Rightarrow> vec3 \<Rightarrow> vec3" where
  \<comment> \<open>\<open>voxelPos\<close> after one run of the body of the loop over \<open>x\<close>\<close>
  "next_slab rnd vp = voxel_x_add rnd 1 (voxel_y_add rnd (- 3) ((next_column rnd ^^ 3) vp))"

definition scannedVoxels :: "(real \<Rightarrow> real) \<Rightarrow> vec3 \<Rightarrow> vec3 list" where
  \<comment> \<open>the 27 values of \<open>voxelPos\<close> that \<^verbatim>\<open>getNearbyBoids\<close> passes to
      \<^verbatim>\<open>checkVoxelForBoids\<close>, in order, from the first one\<close>
  "scannedVoxels rnd v0 =
     concat (map (\<lambda>kx. concat (map (\<lambda>ky. map (\<lambda>kz.
         (voxel_z_add rnd 1 ^^ kz) ((next_column rnd ^^ ky) ((next_slab rnd ^^ kx) v0)))
       [0..<3]) [0..<3])) [0..<3])"

definition cell_hits_r :: "(real \<Rightarrow> real) \<Rightarrow> Flocker \<Rightarrow> nat \<Rightarrow> vec3 \<Rightarrow> NearbyBoid list" where
  \<comment> \<open>what one call of \<^verbatim>\<open>checkVoxelForBoids\<close> appends\<close>
  "cell_hits_r rnd F i k =
     map (make_nearby_r rnd F i) (filter (perceives_r rnd F i) (cached (voxelCache F) k))"

subsection \<open>Rounding to binary32\<close>

definition pow2 :: "int \<Rightarrow> real" where
  "pow2 e = (if 0 \<le> e then 2 ^ nat e else 1 / 2 ^ nat (- e))"

definition round_half_even :: "real \<Rightarrow> int" where
  "round_half_even x =
     (let f = \<lfloor>x\<rfloor>; r = x - of_int f
      in if r < 1 / 2 then f else if 1 / 2 < r then f + 1
         else if even f then f else f + 1)"

definition binary32 :: "real \<Rightarrow> real" where
  \<comment> \<open>The binary32 number nearest to \<open>x\<close>, ties to even: 24 significant bits, the spacing
      not below \<open>2\<^sup>-\<^sup>1\<^sup>4\<^sup>9\<close>. The overflow to an infinity beyond the largest finite number is
      not modelled.\<close>
  "binary32 x =
     (if x = 0 then 0
      else (let e = max (- 149) (\<lfloor>log 2 \<bar>x\<bar>\<rfloor> - 23)
            in of_int (round_half_even (x / pow2 e)) * pow2 e))"

definition rounding_flock :: Flocker where
  \<comment> \<open>perception radius 1, an agent at rest one binary32 step below \<open>x = 1\<close> and another
      at \<open>x = 2\<close>\<close>
  "rounding_flock =
     (new_Flocker [new_Boid (Vec3 (16777215 / 16777216) 0 0) (Vec3 0 0 0),
                   new_Boid (Vec3 2 0 0) (Vec3 0 0 0)]
        (Vec3 0 0 0) (\<lambda>n. 0))\<lparr>PerceptionRadius := 1\<rparr>"

subsection \<open>Concrete flocks\<close>

definition driver_flock :: Flocker where
  \<comment> \<open>the flock that \<^verbatim>\<open>FlockingDriver.cpp\<close> creates, with a constant engine\<close>
  "driver_flock =
     (new_Flocker
        [new_Boid (Vec3 1 0 0) (Vec3 1 0 0),
         new_Boid (Vec3 2.5 0 0) (Vec3 1 1 0),
         new_Boid (Vec3 1 1.5 0) (Vec3 0 1 0),
         new_Boid (Vec3 4 4 0) (Vec3 1 0 0)]
        (Vec3 (- 3) (- 3) 0) (\<lambda>n. 0))
       \<lparr>SteeringTargets := [Vec3 (- 0.18) (- 0.35) 0.2], CollisionRadius := 2\<rparr>"

definition target_seeking_flock :: Flocker where
  \<comment> \<open>the target-seeking scenario: one agent at the origin, one target at \<open>(10, 0, 0)\<close>,
      LINEAR steering curve, steering weight 1, all other weights 0\<close>
  "target_seeking_flock =
     (new_Flocker [new_Boid (Vec3 0 0 0) (Vec3 0 0 0)] (Vec3 0 0 0) (\<lambda>n. 0))
       \<lparr>SeparationWeight := 0, AlignmentWeight := 0, CohesionWeight := 0,
        SteeringWeight := 1, SteeringTargets := [Vec3 10 0 0]\<rparr>"


definition shifted_sphere_flock :: Flocker where
  \<comment> \<open>one agent inside the unit sphere centred at \<open>(10, 0, 0)\<close>, moving away from its centre\<close>
  "shifted_sphere_flock =
     new_Flocker [new_Boid (Vec3 10.5 0 0) (Vec3 1 0 0)] (Vec3 10 0 0) (\<lambda>n. 0)"









definition tailing_flock :: Flocker where
  \<comment> \<open>perception radius 1, an agent at the origin flying at a resting agent one unit
      ahead of it\<close>
  "tailing_flock =
     (new_Flocker [new_Boid (Vec3 0 0 0) (Vec3 1 0 0), new_Boid (Vec3 1 0 0) (Vec3 0 0 0)]
        (Vec3 0 0 0) (\<lambda>n. 0))\<lparr>PerceptionRadius := 1\<rparr>"

section \<open>Vector arithmetic\<close>

lemma vec3_sel_simps [simp]:
  "vx (a + b) = vx a + vx b" "vy (a + b) = vy a + vy b" "vz (a + b) = vz a + vz b"
  "vx (a - b) = vx a - vx b" "vy (a - b) = vy a - vy b" "vz (a - b) = vz a - vz b"
  "vx (- a) = - vx a" "vy (- a) = - vy a" "vz (- a) = - vz a"
  "vx (0::vec3) = 0" "vy (0::vec3) = 0" "vz (0::vec3) = 0"
  "vx (smul k a) = k * vx a" "vy (smul k a) = k * vy a" "vz (smul k a) = k * vz a"
  "vx (vdiv a k) = vx a / k" "vy (vdiv a k) = vy a / k" "vz (vdiv a k) = vz a / k"
  by (simp_all add: plus_vec3_def minus_vec3_def uminus_vec3_def zero_vec3_def smul_def vdiv_def)

lemma vec3_eq_iff: "a = b \<longleftrightarrow> vx a = vx b \<and> vy a = vy b \<and> vz a = vz b"
  by (cases a; cases b) simp

lemma dot_nonneg: "0 \<le> dot a a"
  by (simp add: dot_def)

lemma vlength_nonneg: "0 \<le> vlength a"
  by (simp add: vlength_def dot_nonneg)



lemma vlength_zero_iff: "vlength a = 0 \<longleftrightarrow> a = 0"
proof -
  have "dot a a = 0 \<longleftrightarrow> vx a = 0 \<and> vy a = 0 \<and> vz a = 0"
    unfolding dot_def by (metis (no_types) add_nonneg_eq_0_iff zero_le_square mult_eq_0_iff add_nonneg_nonneg)
  then show ?thesis
    by (simp add: vlength_def vec3_eq_iff)
qed



lemma clampLength_scale:
  assumes "0 \<le> len"
  shows "\<exists>k. 0 \<le> k \<and> k \<le> 1 \<and> clampLength v len = smul k v"
proof (cases "vlength v > len")
  case True
  then have pos: "0 < vlength v" using assms by simp
  have "clampLength v len = smul (len / vlength v) v"
    using True by (simp add: clampLength_def normalize_def vlength_def vec3_eq_iff)
  moreover have "0 \<le> len / vlength v" "len / vlength v \<le> 1"
    using True assms pos by simp_all
  ultimately show ?thesis by blast
next
  case False
  then have "clampLength v len = smul 1 v"
    by (simp add: clampLength_def vec3_eq_iff)
  then show ?thesis by (metis zero_le_one order_refl)
qed

section \<open>The spatial index and the neighbourhood query\<close>

lemma vec3_ctor_simps [simp]:
  "Vec3 a b c + Vec3 d e f = Vec3 (a + d) (b + e) (c + f)"
  "Vec3 a b c - Vec3 d e f = Vec3 (a - d) (b - e) (c - f)"
  "- Vec3 a b c = Vec3 (- a) (- b) (- c)"
  "smul k (Vec3 a b c) = Vec3 (k * a) (k * b) (k * c)"
  "vdiv (Vec3 a b c) k = Vec3 (a / k) (b / k) (c / k)"
  "dot (Vec3 a b c) (Vec3 d e f) = a * d + b * e + c * f"
  by (simp_all add: plus_vec3_def minus_vec3_def uminus_vec3_def smul_def vdiv_def dot_def)

lemma fold_collect:
  "fold (\<lambda>t res. if P t then res @ [g t] else res) ts res = res @ map g (filter P ts)"
  by (induction ts arbitrary: res) simp_all

lemma checkVoxelForBoids_hits:
  "checkVoxelForBoids F i res k = res @ cell_hits F i k"
  by (simp add: checkVoxelForBoids_def cell_hits_def cached_def fold_collect split: option.split)

lemma fold_scan:
  assumes "\<And>k vp res. step k (vp, res) = (sh vp, res @ h vp)"
  shows "fold step [0..<n] (vp, res) =
           ((sh ^^ n) vp, res @ concat (map (\<lambda>k. h ((sh ^^ k) vp)) [0..<n]))"
  by (induction n) (simp_all add: assms)

lemma shift_z_pow: "((\<lambda>v. v + Vec3 0 0 1) ^^ k) (Vec3 a b c) = Vec3 a b (c + real k)"
  by (induction k) (simp_all add: add.assoc)

lemma shift_y_pow: "((\<lambda>v. v + Vec3 0 1 0) ^^ k) (Vec3 a b c) = Vec3 a (b + real k) c"
  by (induction k) (simp_all add: add.assoc)

lemma shift_x_pow: "((\<lambda>v. v + Vec3 1 0 0) ^^ k) (Vec3 a b c) = Vec3 (a + real k) b c"
  by (induction k) (simp_all add: add.assoc)

lemma loop_z_fold:
  "fold (nearby_loop_z F i) [0..<3] (Vec3 a b c, res) =
     (Vec3 a b (c + 3), res @ column_hits F i (Vec3 a b c))"
proof -
  have "fold (nearby_loop_z F i) [0..<3] (Vec3 a b c, res) =
          (((\<lambda>v. v + Vec3 0 0 1) ^^ 3) (Vec3 a b c),
           res @ concat (map (\<lambda>k. cell_hits F i (((\<lambda>v. v + Vec3 0 0 1) ^^ k) (Vec3 a b c)))
                           [0..<3]))"
    by (rule fold_scan) (simp add: nearby_loop_z_def checkVoxelForBoids_hits)
  then show ?thesis
    by (simp only: shift_z_pow column_hits_def vec3.sel of_nat_numeral)
qed

lemma loop_y_step:
  "nearby_loop_y F i k (Vec3 a b c, res) =
     (Vec3 a b c + Vec3 0 1 0, res @ column_hits F i (Vec3 a b c))"
  by (simp add: nearby_loop_y_def loop_z_fold)

lemma loop_y_fold:
  "fold (nearby_loop_y F i) [0..<3] (Vec3 a b c, res) =
     (Vec3 a (b + 3) c, res @ slab_hits F i (Vec3 a b c))"
proof -
  have "fold (nearby_loop_y F i) [0..<3] (Vec3 a b c, res) =
          (((\<lambda>v. v + Vec3 0 1 0) ^^ 3) (Vec3 a b c),
           res @ concat (map (\<lambda>k. column_hits F i (((\<lambda>v. v + Vec3 0 1 0) ^^ k) (Vec3 a b c)))
                           [0..<3]))"
  proof (rule fold_scan)
    fix k vp res
    show "nearby_loop_y F i k (vp, res) = (vp + Vec3 0 1 0, res @ column_hits F i vp)"
      by (cases vp) (simp only: loop_y_step)
  qed
  then show ?thesis
    by (simp only: shift_y_pow slab_hits_def vec3.sel of_nat_numeral)
qed

lemma loop_x_step:
  "nearby_loop_x F i k (Vec3 a b c, res) =
     (Vec3 a b c + Vec3 1 0 0, res @ slab_hits F i (Vec3 a b c))"
  by (simp add: nearby_loop_x_def loop_y_fold)

lemma loop_x_fold:
  "fold (nearby_loop_x F i) [0..<3] (Vec3 a b c, res) =
     (Vec3 (a + 3) b c,
      res @ concat (map (\<lambda>k. slab_hits F i (Vec3 (a + real k) b c)) [0..<3]))"
proof -
  have "fold (nearby_loop_x F i) [0..<3] (Vec3 a b c, res) =
          (((\<lambda>v. v + Vec3 1 0 0) ^^ 3) (Vec3 a b c),
           res @ concat (map (\<lambda>k. slab_hits F i (((\<lambda>v. v + Vec3 1 0 0) ^^ k) (Vec3 a b c)))
                           [0..<3]))"
  proof (rule fold_scan)
    fix k vp res
    show "nearby_loop_x F i k (vp, res) = (vp + Vec3 1 0 0, res @ slab_hits F i vp)"
      by (cases vp) (simp only: loop_x_step)
  qed
  then show ?thesis
    by (simp only: shift_x_pow of_nat_numeral)
qed

lemma in_getNearbyBoids_iff:
  assumes "getVoxelForBoid F (boids F ! i) = Vec3 a b c"
  shows "nb \<in> set (getNearbyBoids F i) \<longleftrightarrow>
     (\<exists>kx<3. \<exists>ky<3. \<exists>kz<3.
        nb \<in> set (cell_hits F i (Vec3 (a - 1 + real kx) (b - 1 + real ky) (c - 1 + real kz))))"
  by (simp add: getNearbyBoids_def assms loop_x_fold slab_hits_def column_hits_def Bex_def)


lemma cached_fold_push:
  "cached (fold (cache_push F) [0..<n] Map.empty) k =
     filter (\<lambda>t. getVoxelForBoid F (boids F ! t) = k) [0..<n]"
  by (induction n) (simp_all add: cache_push_def cached_def Let_def)

lemma cached_buildVoxelCache:
  "cached (voxelCache (buildVoxelCache F)) k =
     filter (\<lambda>t. getVoxelForBoid F (boids F ! t) = k) [0..<length (boids F)]"
  by (simp add: buildVoxelCache_def cached_fold_push)

lemma buildVoxelCache_fields [simp]:
  "boids (buildVoxelCache F) = boids F"
  "PerceptionRadius (buildVoxelCache F) = PerceptionRadius F"
  "FOVAngleDegCompareValue (buildVoxelCache F) = FOVAngleDegCompareValue F"
  by (simp_all add: buildVoxelCache_def)

lemma perceives_buildVoxelCache [simp]:
  "perceives (buildVoxelCache F) = perceives F"
  by (intro ext) (simp add: perceives_def)

lemma make_nearby_buildVoxelCache [simp]:
  "make_nearby (buildVoxelCache F) = make_nearby F"
  by (intro ext) (simp add: make_nearby_def)

lemma getVoxelForBoid_buildVoxelCache [simp]:
  "getVoxelForBoid (buildVoxelCache F) = getVoxelForBoid F"
  by (intro ext) (simp add: getVoxelForBoid_def)

lemma trunc_int_mono: "x \<le> y \<Longrightarrow> trunc_int x \<le> trunc_int y"
proof -
  assume le: "x \<le> y"
  show ?thesis
  proof (cases "0 \<le> x")
    case True
    then show ?thesis using le by (simp add: trunc_int_def floor_mono)
  next
    case neg: False
    show ?thesis
    proof (cases "0 \<le> y")
      case True
      have "\<lceil>x\<rceil> \<le> 0" using neg by (simp add: ceiling_le_zero)
      moreover have "0 \<le> \<lfloor>y\<rfloor>" using True by simp
      ultimately have "\<lceil>x\<rceil> \<le> \<lfloor>y\<rfloor>" by linarith
      then show ?thesis using neg True by (simp add: trunc_int_def)
    next
      case False
      then show ?thesis using neg le by (simp add: trunc_int_def ceiling_mono)
    qed
  qed
qed

lemma trunc_int_succ: "trunc_int (x + 1) \<le> trunc_int x + 1"
  unfolding trunc_int_def by (auto; linarith)

lemma trunc_int_close:
  assumes "\<bar>x - y\<bar> \<le> 1"
  shows "\<bar>trunc_int x - trunc_int y\<bar> \<le> 1"
proof -
  have "trunc_int x \<le> trunc_int (y + 1)" "trunc_int y \<le> trunc_int (x + 1)"
    using assms by (auto intro!: trunc_int_mono)
  then show ?thesis
    using trunc_int_succ [of x] trunc_int_succ [of y] by linarith
qed

lemma component_le_vlength:
  "\<bar>vx a\<bar> \<le> vlength a" "\<bar>vy a\<bar> \<le> vlength a" "\<bar>vz a\<bar> \<le> vlength a"
proof -
  have "(vx a)\<^sup>2 \<le> dot a a" "(vy a)\<^sup>2 \<le> dot a a" "(vz a)\<^sup>2 \<le> dot a a"
    by (simp_all add: dot_def power2_eq_square)
  then show "\<bar>vx a\<bar> \<le> vlength a" "\<bar>vy a\<bar> \<le> vlength a" "\<bar>vz a\<bar> \<le> vlength a"
    unfolding vlength_def by (auto intro: real_le_rsqrt simp add: abs_le_square_iff [symmetric] dest: real_sqrt_le_mono)
qed


lemma voxel_close:
  assumes "0 < r" "\<bar>p - q\<bar> \<le> r"
  shows "\<exists>k<3. (of_int (trunc_int (q / r)) :: real) = of_int (trunc_int (p / r)) - 1 + real k"
proof -
  have "\<bar>q / r - p / r\<bar> \<le> 1"
    using assms by (simp add: diff_divide_distrib [symmetric] abs_minus_commute)
  then have close: "\<bar>trunc_int (q / r) - trunc_int (p / r)\<bar> \<le> 1"
    by (rule trunc_int_close)
  define k where "k = nat (trunc_int (q / r) - trunc_int (p / r) + 1)"
  have "k < 3" using close by (simp add: k_def)
  moreover have "(of_int (trunc_int (q / r)) :: real) = of_int (trunc_int (p / r)) - 1 + real k"
    using close by (simp add: k_def)
  ultimately show ?thesis by blast
qed

lemma in_cell_hits_iff:
  "nb \<in> set (cell_hits (buildVoxelCache F) i k) \<longleftrightarrow>
     (\<exists>t<length (boids F). getVoxelForBoid F (boids F ! t) = k \<and> perceives F i t
        \<and> nb = make_nearby F i t)"
  by (auto simp add: cell_hits_def cached_buildVoxelCache)

lemma perceived_in_block:
  assumes p: "perceives F i t" and nz: "PerceptionRadius F \<noteq> 0"
    and v: "getVoxelForBoid F (boids F ! i) = Vec3 a b c"
  shows "\<exists>kx<3. \<exists>ky<3. \<exists>kz<3.
           getVoxelForBoid F (boids F ! t) = Vec3 (a - 1 + real kx) (b - 1 + real ky) (c - 1 + real kz)"
proof -
  define w where "w = position (boids F ! t) - position (boids F ! i)"
  have len: "vlength w \<le> PerceptionRadius F"
    using p by (simp add: perceives_def w_def Let_def)
  then have pos: "0 < PerceptionRadius F"
    using nz vlength_nonneg [of w] by linarith
  then have r: "\<bar>PerceptionRadius F\<bar> = PerceptionRadius F" by simp
  have cx: "\<bar>vx (position (boids F ! i)) - vx (position (boids F ! t))\<bar> \<le> PerceptionRadius F"
    using component_le_vlength(1) [of w] len by (simp add: w_def abs_minus_commute)
  have cy: "\<bar>vy (position (boids F ! i)) - vy (position (boids F ! t))\<bar> \<le> PerceptionRadius F"
    using component_le_vlength(2) [of w] len by (simp add: w_def abs_minus_commute)
  have cz: "\<bar>vz (position (boids F ! i)) - vz (position (boids F ! t))\<bar> \<le> PerceptionRadius F"
    using component_le_vlength(3) [of w] len by (simp add: w_def abs_minus_commute)
  from v have a: "a = of_int (trunc_int (vx (position (boids F ! i)) / PerceptionRadius F))"
    and b: "b = of_int (trunc_int (vy (position (boids F ! i)) / PerceptionRadius F))"
    and c: "c = of_int (trunc_int (vz (position (boids F ! i)) / PerceptionRadius F))"
    by (simp_all add: getVoxelForBoid_def r Let_def)
  show ?thesis
    using voxel_close [OF pos cx] voxel_close [OF pos cy] voxel_close [OF pos cz]
    by (simp add: getVoxelForBoid_def r a b c Let_def) blast
qed

lemma grid_query_set:
  assumes nz: "PerceptionRadius F \<noteq> 0"
  shows "set (getNearbyBoids (buildVoxelCache F) i) =
           make_nearby F i ` {t. t < length (boids F) \<and> perceives F i t}"
proof -
  obtain a b c where v: "getVoxelForBoid F (boids F ! i) = Vec3 a b c"
    by (cases "getVoxelForBoid F (boids F ! i)") blast
  then have v': "getVoxelForBoid (buildVoxelCache F) (boids (buildVoxelCache F) ! i) = Vec3 a b c"
    by simp
  have "nb \<in> set (getNearbyBoids (buildVoxelCache F) i) \<longleftrightarrow>
        nb \<in> make_nearby F i ` {t. t < length (boids F) \<and> perceives F i t}" for nb
  proof
    assume "nb \<in> set (getNearbyBoids (buildVoxelCache F) i)"
    then show "nb \<in> make_nearby F i ` {t. t < length (boids F) \<and> perceives F i t}"
      by (auto simp add: in_getNearbyBoids_iff [OF v'] in_cell_hits_iff)
  next
    assume "nb \<in> make_nearby F i ` {t. t < length (boids F) \<and> perceives F i t}"
    then obtain t where t: "t < length (boids F)" "perceives F i t" "nb = make_nearby F i t"
      by auto
    from perceived_in_block [OF t(2) nz v] t
    show "nb \<in> set (getNearbyBoids (buildVoxelCache F) i)"
      unfolding in_getNearbyBoids_iff [OF v'] in_cell_hits_iff by blast
  qed
  then show ?thesis by blast
qed

lemma bruteForceNeighbors_set:
  "set (bruteForceNeighbors F i) =
     make_nearby (F::Flocker) i ` {t. t < length (boids F) \<and> perceives F i t}"
  by (auto simp add: bruteForceNeighbors_def)

lemma substituted_radius_nonzero:
  "PerceptionRadius (if PerceptionRadius F = 0 then F\<lparr>PerceptionRadius := 1\<rparr> else F) \<noteq> 0"
  by simp

lemma boid_make_nearby [simp]: "boid (make_nearby F i t) = t"
  by (simp add: make_nearby_def Let_def)

lemma neighbour_listed_iff:
  assumes "PerceptionRadius F \<noteq> 0" "t < length (boids F)"
  shows "(\<exists>nb\<in>set (getNearbyBoids (buildVoxelCache F) i). boid nb = t) \<longleftrightarrow> perceives F i t"
  using assms by (auto simp add: grid_query_set)

section \<open>The two phases of a step\<close>

lemma same_motion_refl [simp]: "same_motion b b"
  by (simp add: same_motion_def)

lemma same_motion_update [simp]: "same_motion b (b\<lparr>acceleration := a\<rparr>)"
  by (simp add: same_motion_def)

lemma same_motion_trans: "same_motion b b' \<Longrightarrow> same_motion b' b'' \<Longrightarrow> same_motion b b''"
  unfolding same_motion_def by (metis Boid.update_convs(3) Boid.surjective)

lemma same_motion_fields:
  assumes "same_motion b b'"
  shows "position b' = position b" "velocity b' = velocity b"
    "motion_normal b' = motion_normal b" "avoidance b' = avoidance b"
  using assms unfolding same_motion_def
  by (metis Boid.select_convs Boid.update_convs(3) Boid.surjective)+

lemma updateBoid_frame:
  "\<exists>a e. updateBoid i F =
           F\<lparr>boids := (boids F)[i := (boids F ! i)\<lparr>acceleration := a\<rparr>], eng := e\<rparr>"
  by (auto simp add: updateBoid_def split: prod.splits)

lemma same_motion_list_update:
  "list_all2 same_motion bs (bs[i := (bs ! i)\<lparr>acceleration := a\<rparr>])"
proof -
  have "same_motion (bs ! j) (bs[i := (bs ! i)\<lparr>acceleration := a\<rparr>] ! j)" if "j < length bs" for j
  proof (cases "j = i")
    case True
    then show ?thesis using that by simp
  next
    case False
    then show ?thesis by simp
  qed
  then show ?thesis by (simp add: list_all2_conv_all_nth)
qed

lemma fold_updateBoid_frame:
  "\<exists>bs e. fold updateBoid xs F = F\<lparr>boids := bs, eng := e\<rparr> \<and>
          list_all2 same_motion (boids F) bs"
proof (induction xs arbitrary: F)
  case Nil
  have "F = F\<lparr>boids := boids F, eng := eng F\<rparr>" by simp
  moreover have "list_all2 same_motion (boids F) (boids F)"
    by (simp add: list_all2_conv_all_nth)
  ultimately show ?case by (metis fold_simps(1))
next
  case (Cons x xs)
  obtain a e where u: "updateBoid x F =
      F\<lparr>boids := (boids F)[x := (boids F ! x)\<lparr>acceleration := a\<rparr>], eng := e\<rparr>"
    using updateBoid_frame by blast
  obtain bs e' where f: "fold updateBoid xs (updateBoid x F) = (updateBoid x F)\<lparr>boids := bs, eng := e'\<rparr>"
    and l: "list_all2 same_motion (boids (updateBoid x F)) bs"
    using Cons.IH by blast
  have "fold updateBoid (x # xs) F = F\<lparr>boids := bs, eng := e'\<rparr>"
    using f by (simp add: u)
  moreover have "list_all2 same_motion (boids F) bs"
  proof (rule list_all2_trans [OF _ same_motion_list_update [of "boids F" x a]])
    show "list_all2 same_motion ((boids F)[x := (boids F ! x)\<lparr>acceleration := a\<rparr>]) bs"
      using l by (simp add: u)
  qed (rule same_motion_trans)
  ultimately show ?case by blast
qed

lemma updateAcceleration_frame:
  "\<exists>bs e m. updateAcceleration F =
       F\<lparr>PerceptionRadius := (if PerceptionRadius F = 0 then 1 else PerceptionRadius F),
         boids := bs, voxelCache := m, eng := e\<rparr> \<and>
       list_all2 same_motion (boids F) bs"
proof -
  define F1 where "F1 = (if PerceptionRadius F = 0 then F\<lparr>PerceptionRadius := 1\<rparr> else F)"
  obtain bs e where f: "fold updateBoid [0..<length (boids (buildVoxelCache F1))] (buildVoxelCache F1)
        = (buildVoxelCache F1)\<lparr>boids := bs, eng := e\<rparr>"
    and l: "list_all2 same_motion (boids (buildVoxelCache F1)) bs"
    using fold_updateBoid_frame by blast
  have "updateAcceleration F = (buildVoxelCache F1)\<lparr>boids := bs, eng := e\<rparr>"
    using f by (simp add: updateAcceleration_def F1_def Let_def)
  then have "updateAcceleration F =
       F\<lparr>PerceptionRadius := (if PerceptionRadius F = 0 then 1 else PerceptionRadius F),
         boids := bs, voxelCache := voxelCache (buildVoxelCache F1), eng := e\<rparr>"
    by (simp add: buildVoxelCache_def F1_def)
  moreover have "boids F1 = boids F"
    by (simp add: F1_def)
  then have "list_all2 same_motion (boids F) bs"
    using l by simp
  ultimately show ?thesis by blast
qed

lemma integrate_cong:
  assumes "CollisionRadius G = CollisionRadius F" "CollisionCenter G = CollisionCenter F"
    "MaxVelocity G = MaxVelocity F"
  shows "integrate dt G = integrate dt F"
proof -
  have "avoidanceDirection G = avoidanceDirection F"
    by (intro ext) (simp only: avoidanceDirection_def assms)
  then show ?thesis
    by (intro ext) (simp only: integrate_def insideSphere_def safetyCorrection_def assms)
qed

lemma update_nth_map_take:
  assumes "n < length xs"
  shows "(map f (take n xs) @ drop n xs)[n := f ((map f (take n xs) @ drop n xs) ! n)] =
         map f (take (Suc n) xs) @ drop (Suc n) xs"
proof -
  have "drop n xs = xs ! n # drop (Suc n) xs"
    using assms by (simp add: Cons_nth_drop_Suc)
  then show ?thesis
    using assms by (simp add: take_Suc_conv_app_nth list_update_append nth_append)
qed

lemma fold_integrate:
  assumes "n \<le> length (boids G)"
  shows "fold (\<lambda>i H. H\<lparr>boids := (boids H)[i := integrate dt H (boids H ! i)]\<rparr>) [0..<n] G =
         G\<lparr>boids := map (integrate dt G) (take n (boids G)) @ drop n (boids G)\<rparr>"
  using assms
proof (induction n)
  case 0
  then show ?case by simp
next
  case (Suc n)
  then have n: "n < length (boids G)" by simp
  have c: "integrate dt (G\<lparr>boids := bs\<rparr>) = integrate dt G" for bs
    by (rule integrate_cong) simp_all
  show ?case
    using Suc.IH n by (simp add: c update_nth_map_take)
qed

lemma update_frame:
  "\<exists>bs e m. update dt F =
       F\<lparr>PerceptionRadius := (if PerceptionRadius F = 0 then 1 else PerceptionRadius F),
         boids := map (integrate dt F) bs, voxelCache := m, eng := e,
         FOVAngleDegCompareValue := cos (TWO_PI * FOVAngleDeg F / 360)\<rparr> \<and>
       list_all2 same_motion (boids F) bs \<and>
       boids (updateAcceleration (F\<lparr>FOVAngleDegCompareValue := cos (TWO_PI * FOVAngleDeg F / 360)\<rparr>)) = bs"
proof -
  define F1 where "F1 = F\<lparr>FOVAngleDegCompareValue := cos (TWO_PI * FOVAngleDeg F / 360)\<rparr>"
  obtain bs e m where u: "updateAcceleration F1 =
       F1\<lparr>PerceptionRadius := (if PerceptionRadius F1 = 0 then 1 else PerceptionRadius F1),
         boids := bs, voxelCache := m, eng := e\<rparr>"
    and l: "list_all2 same_motion (boids F1) bs"
    using updateAcceleration_frame by blast
  have c: "integrate dt (updateAcceleration F1) = integrate dt F"
    unfolding u by (rule integrate_cong) (simp_all add: F1_def)
  have "update dt F = (updateAcceleration F1)\<lparr>boids := map (integrate dt F) bs\<rparr>"
    using fold_integrate [of "length (boids (updateAcceleration F1))" "updateAcceleration F1" dt]
    by (simp add: update_def F1_def [symmetric] Let_def c) (simp add: u)
  then have "update dt F =
       (F1\<lparr>PerceptionRadius := (if PerceptionRadius F1 = 0 then 1 else PerceptionRadius F1),
          boids := bs, voxelCache := m, eng := e\<rparr>)\<lparr>boids := map (integrate dt F) bs\<rparr>"
    by (simp only: u)
  then have "update dt F =
       F\<lparr>PerceptionRadius := (if PerceptionRadius F = 0 then 1 else PerceptionRadius F),
         boids := map (integrate dt F) bs, voxelCache := m, eng := e,
         FOVAngleDegCompareValue := cos (TWO_PI * FOVAngleDeg F / 360)\<rparr>"
    by (simp add: F1_def)
  moreover have "list_all2 same_motion (boids F) bs"
    using l by (simp add: F1_def)
  moreover have "boids (updateAcceleration F1) = bs"
    by (simp add: u)
  ultimately show ?thesis unfolding F1_def by blast
qed

text \<open>
  C10. The substitution of a zero perception radius is a persistent change of the
  configuration: after any call of \<^verbatim>\<open>update\<close> made while \<open>PerceptionRadius\<close> is 0 the
  stored field is 1, and a non-zero \<open>PerceptionRadius\<close> is left as it is.
\<close>

theorem zero_radius_substitution_persists:
  "PerceptionRadius (update dt F) = (if PerceptionRadius F = 0 then 1 else PerceptionRadius F)"
proof -
  obtain bs e m where "update dt F =
       F\<lparr>PerceptionRadius := (if PerceptionRadius F = 0 then 1 else PerceptionRadius F),
         boids := map (integrate dt F) bs, voxelCache := m, eng := e,
         FOVAngleDegCompareValue := cos (TWO_PI * FOVAngleDeg F / 360)\<rparr>"
    using update_frame by blast
  then show ?thesis by simp
qed

lemma fold_updateBoid_radius:
  "PerceptionRadius (fold updateBoid xs G) = PerceptionRadius G"
proof -
  obtain bs e where "fold updateBoid xs G = G\<lparr>boids := bs, eng := e\<rparr>"
    using fold_updateBoid_frame by blast
  then show ?thesis by simp
qed

lemma updateAcceleration_zero_radius:
  assumes "PerceptionRadius F = 0"
  shows "updateAcceleration F =
           fold updateBoid [0..<length (boids F)] (buildVoxelCache (F\<lparr>PerceptionRadius := 1\<rparr>))"
  using assms by (simp add: updateAcceleration_def Let_def)

lemma updateAcceleration_unit_radius:
  "updateAcceleration (F\<lparr>PerceptionRadius := 1\<rparr>) =
           fold updateBoid [0..<length (boids F)] (buildVoxelCache (F\<lparr>PerceptionRadius := 1\<rparr>))"
  by (simp add: updateAcceleration_def Let_def)

text \<open>
  C9. A step that starts with the perception radius configured as 0 evaluates it as 1
  everywhere. The whole step equals the step of the configuration with radius 1;
  \<^verbatim>\<open>updateAcceleration\<close> builds the cache, hence every cell in \<^verbatim>\<open>getVoxelForBoid\<close>,
  from the state whose radius is 1; and every state that the loop over the boids passes to
  \<^verbatim>\<open>updateBoid\<close>, in which the distance threshold is read, has radius 1.
\<close>

theorem zero_radius_evaluated_as_one:
  assumes "PerceptionRadius F = 0"
  shows "update dt F = update dt (F\<lparr>PerceptionRadius := 1\<rparr>) \<and>
         updateAcceleration F =
           fold updateBoid [0..<length (boids F)] (buildVoxelCache (F\<lparr>PerceptionRadius := 1\<rparr>)) \<and>
         PerceptionRadius (buildVoxelCache (F\<lparr>PerceptionRadius := 1\<rparr>)) = 1 \<and>
         (\<forall>xs. PerceptionRadius (fold updateBoid xs (buildVoxelCache (F\<lparr>PerceptionRadius := 1\<rparr>))) = 1)"
proof -
  define c where "c = cos (TWO_PI * FOVAngleDeg F / 360)"
  have z: "PerceptionRadius (F\<lparr>FOVAngleDegCompareValue := c\<rparr>) = 0"
    using assms by simp
  have swap: "F\<lparr>PerceptionRadius := 1, FOVAngleDegCompareValue := c\<rparr> =
              F\<lparr>FOVAngleDegCompareValue := c, PerceptionRadius := 1\<rparr>"
    by (rule Flocker.equality) simp_all
  have "updateAcceleration (F\<lparr>FOVAngleDegCompareValue := c\<rparr>) =
        updateAcceleration (F\<lparr>PerceptionRadius := 1, FOVAngleDegCompareValue := c\<rparr>)"
    unfolding swap
    using updateAcceleration_zero_radius [OF z]
      updateAcceleration_unit_radius [of "F\<lparr>FOVAngleDegCompareValue := c\<rparr>"]
    by simp
  then have "update dt F = update dt (F\<lparr>PerceptionRadius := 1\<rparr>)"
    by (simp add: update_def c_def Let_def)
  then show ?thesis
    using updateAcceleration_zero_radius [OF assms]
    by (simp add: fold_updateBoid_radius)
qed

theorem zero_radius_evaluated_as_one_witness:
  "PerceptionRadius (driver_flock\<lparr>PerceptionRadius := 0\<rparr>) = 0 \<and>
   update 1 (driver_flock\<lparr>PerceptionRadius := 0\<rparr>) = update 1 (driver_flock\<lparr>PerceptionRadius := 1\<rparr>)"
proof -
  have h: "PerceptionRadius (driver_flock\<lparr>PerceptionRadius := 0\<rparr>) = 0" by simp
  show ?thesis
    using h zero_radius_evaluated_as_one [OF h, of 1] by simp
qed


lemma update_nth:
  assumes "i < length (boids F)"
  shows "\<exists>b'. same_motion (boids F ! i) b' \<and> boids (update dt F) ! i = integrate dt F b' \<and>
           length (boids (update dt F)) = length (boids F) \<and>
           b' = boids (updateAcceleration (F\<lparr>FOVAngleDegCompareValue := cos (TWO_PI * FOVAngleDeg F / 360)\<rparr>)) ! i"
proof -
  obtain bs e m where u: "update dt F =
       F\<lparr>PerceptionRadius := (if PerceptionRadius F = 0 then 1 else PerceptionRadius F),
         boids := map (integrate dt F) bs, voxelCache := m, eng := e,
         FOVAngleDegCompareValue := cos (TWO_PI * FOVAngleDeg F / 360)\<rparr>"
    and l: "list_all2 same_motion (boids F) bs"
    and b: "boids (updateAcceleration (F\<lparr>FOVAngleDegCompareValue := cos (TWO_PI * FOVAngleDeg F / 360)\<rparr>)) = bs"
    using update_frame by blast
  have len: "length bs = length (boids F)"
    using l by (simp add: list_all2_lengthD)
  moreover have "same_motion (boids F ! i) (bs ! i)"
    using l assms by (simp add: list_all2_nthD)
  ultimately show ?thesis
    using assms by (simp add: u b)
qed

section \<open>An agent without neighbours\<close>

lemma nearbySums_Nil [simp]: "nearbySums F [] = (0, 0, 0, eng F)"
  by (simp add: nearbySums_def)

lemma weightedSum_no_neighbours:
  assumes "getNearbyBoids F i = []"
  shows "weightedSum F i = smul (SteeringWeight F) (steering F (boids F ! i))"
  by (simp add: weightedSum_def assms vec3_eq_iff Let_def)

lemma updateBoid_no_neighbours:
  assumes "getNearbyBoids F i = []"
  shows "updateBoid i F =
     F\<lparr>boids := (boids F)[i := (boids F ! i)\<lparr>acceleration :=
              clampLength (smul (SteeringWeight F) (steering F (boids F ! i))) (MaxAcceleration F)\<rparr>],
       eng := eng F\<rparr>"
  by (simp add: updateBoid_def assms weightedSum_no_neighbours)

lemma getNearbyBoids_empty:
  assumes "\<And>k t. t \<in> set (cached (voxelCache F) k) \<Longrightarrow> \<not> perceives F i t"
  shows "getNearbyBoids F i = []"
proof -
  obtain a b c where v: "getVoxelForBoid F (boids F ! i) = Vec3 a b c"
    by (cases "getVoxelForBoid F (boids F ! i)") blast
  have "filter (perceives F i) (cached (voxelCache F) k) = []" for k
    using assms by (simp add: filter_empty_conv)
  then have "cell_hits F i k = []" for k
    by (simp add: cell_hits_def)
  then have "nb \<notin> set (getNearbyBoids F i)" for nb
    by (simp add: in_getNearbyBoids_iff [OF v])
  then show ?thesis
    by (cases "getNearbyBoids F i") auto
qed

lemma steering_cong:
  assumes "SteeringTargets G = SteeringTargets F" "SteeringTargetType G = SteeringTargetType F"
  shows "steering G = steering F"
  by (intro ext) (simp add: steering_def chooseTarget_def assms)

lemma steering_no_targets:
  assumes "SteeringTargets F = []"
  shows "steering F b = 0"
  by (simp add: steering_def chooseTarget_def assms any_equal_def)

lemma clampLength_zero: "0 \<le> len \<Longrightarrow> clampLength 0 len = 0"
  using vlength_zero_iff [of 0] by (simp add: clampLength_def)

lemma smul_zero [simp]: "smul k 0 = 0"
  by (simp add: vec3_eq_iff)

lemma fold_updateBoid_other:
  assumes "i \<notin> set xs"
  shows "boids (fold updateBoid xs G) ! i = boids G ! i"
  using assms
proof (induction xs arbitrary: G)
  case Nil
  then show ?case by simp
next
  case (Cons x xs)
  obtain a e where u: "updateBoid x G =
      G\<lparr>boids := (boids G)[x := (boids G ! x)\<lparr>acceleration := a\<rparr>], eng := e\<rparr>"
    using updateBoid_frame by blast
  have "boids (fold updateBoid (x # xs) G) ! i = boids (updateBoid x G) ! i"
    using Cons by simp
  also have "\<dots> = boids G ! i"
    using Cons.prems by (simp add: u)
  finally show ?case .
qed

lemma perceives_cong:
  assumes "list_all2 same_motion (boids F) (boids G)"
    "PerceptionRadius G = PerceptionRadius F"
    "FOVAngleDegCompareValue G = FOVAngleDegCompareValue F"
    "i < length (boids F)" "t < length (boids F)"
  shows "perceives G i t = perceives F i t"
proof -
  have "same_motion (boids F ! i) (boids G ! i)" "same_motion (boids F ! t) (boids G ! t)"
    using assms(1,4,5) by (simp_all add: list_all2_nthD)
  then show ?thesis
    by (simp add: perceives_def compareValue_def same_motion_fields assms(2,3) Let_def)
qed

lemma isolated_not_perceived:
  assumes "PerceptionRadius F < vlength (position (boids F ! t) - position (boids F ! i))"
  shows "\<not> perceives F i t"
  using assms by (simp add: perceives_def Let_def)

lemma updateAcceleration_isolated:
  assumes i: "i < length (boids F)"
    and far: "\<forall>t<length (boids F). t \<noteq> i \<longrightarrow>
               (if PerceptionRadius F = 0 then 1 else PerceptionRadius F)
                 < vlength (position (boids F ! t) - position (boids F ! i))"
  shows "boids (updateAcceleration F) ! i =
           (boids F ! i)\<lparr>acceleration :=
              clampLength (smul (SteeringWeight F) (steering F (boids F ! i))) (MaxAcceleration F)\<rparr>"
proof -
  define F1 where "F1 = (if PerceptionRadius F = 0 then F\<lparr>PerceptionRadius := 1\<rparr> else F)"
  define G0 where "G0 = buildVoxelCache F1"
  define G where "G = fold updateBoid [0..<i] G0"
  have b1: "boids F1 = boids F" and r1: "PerceptionRadius F1 = (if PerceptionRadius F = 0 then 1 else PerceptionRadius F)"
    by (simp_all add: F1_def)
  have n: "length (boids G0) = length (boids F)" by (simp add: G0_def b1)
  obtain bs e where g: "G = G0\<lparr>boids := bs, eng := e\<rparr>" and l: "list_all2 same_motion (boids G0) bs"
    unfolding G_def using fold_updateBoid_frame by blast
  have l': "list_all2 same_motion (boids F1) (boids G)"
    using l by (simp add: g G0_def)
  have same: "same_motion (boids F ! i) (boids G ! i)"
    using l' i by (simp add: list_all2_nthD b1)
  have "\<not> perceives G i t" if "t \<in> set (cached (voxelCache G) k)" for k t
  proof -
    have t: "t < length (boids F)"
      using that by (simp add: g G0_def cached_buildVoxelCache b1)
    have "perceives G i t = perceives F1 i t"
      by (rule perceives_cong [OF l']) (simp_all add: g G0_def b1 i t)
    moreover have "\<not> perceives F1 i t"
    proof (cases "t = i")
      case True
      then show ?thesis by (simp add: perceives_def)
    next
      case False
      then show ?thesis
        using far t by (intro isolated_not_perceived) (simp add: b1 r1)
    qed
    ultimately show ?thesis by simp
  qed
  then have "getNearbyBoids G i = []"
    by (rule getNearbyBoids_empty)
  then have u: "updateBoid i G =
     G\<lparr>boids := (boids G)[i := (boids G ! i)\<lparr>acceleration :=
              clampLength (smul (SteeringWeight G) (steering G (boids G ! i))) (MaxAcceleration G)\<rparr>],
       eng := eng G\<rparr>"
    by (rule updateBoid_no_neighbours)
  have st: "steering G = steering F"
    by (rule steering_cong) (simp_all add: g G0_def F1_def buildVoxelCache_def)
  have cf: "SteeringWeight G = SteeringWeight F" "MaxAcceleration G = MaxAcceleration F"
    by (simp_all add: g G0_def F1_def buildVoxelCache_def)
  have li: "i < length (boids G)"
    using l' i by (simp add: list_all2_lengthD [symmetric] b1)
  have split: "[0..<length (boids F)] = [0..<i] @ i # [Suc i..<length (boids F)]"
    using i by (metis upt_conv_Cons upt_add_eq_append le0 le_add_diff_inverse less_imp_le_nat plus_nat.add_0)
  have "updateAcceleration F = fold updateBoid [Suc i..<length (boids F)] (updateBoid i G)"
    by (simp add: updateAcceleration_def Let_def F1_def [symmetric] G0_def [symmetric] b1 split G_def)
  then have "boids (updateAcceleration F) ! i = boids (updateBoid i G) ! i"
    by (simp add: fold_updateBoid_other)
  also have "\<dots> = (boids G ! i)\<lparr>acceleration :=
              clampLength (smul (SteeringWeight F) (steering F (boids G ! i))) (MaxAcceleration F)\<rparr>"
    using li by (simp add: u st cf)
  also have "\<dots> = (boids F ! i)\<lparr>acceleration :=
              clampLength (smul (SteeringWeight F) (steering F (boids F ! i))) (MaxAcceleration F)\<rparr>"
  proof -
    have "position (boids G ! i) = position (boids F ! i)"
      using same by (simp add: same_motion_fields)
    then have "steering F (boids G ! i) = steering F (boids F ! i)"
      by (simp only: steering_def chooseTarget_def)
    moreover have "(boids G ! i)\<lparr>acceleration := a\<rparr> = (boids F ! i)\<lparr>acceleration := a\<rparr>" for a
      using same unfolding same_motion_def by (metis Boid.update_convs(3) Boid.surjective)
    ultimately show ?thesis by simp
  qed
  finally show ?thesis .
qed

section \<open>Evaluation on concrete states\<close>

lemma zero_vec3_ctor: "(0::vec3) = Vec3 0 0 0"
  by (simp add: zero_vec3_def)

lemma vlength_ctor: "vlength (Vec3 a b c) = sqrt (a * a + b * b + c * c)"
  by (simp add: vlength_def)

lemma length2_ctor: "length2 (Vec3 a b c) = a * a + b * b + c * c"
  by (simp add: length2_def)

lemmas eval_simps = zero_vec3_ctor vlength_ctor length2_ctor new_Flocker_def new_Boid_def
  normalize_def clampLength_def cross_def any_equal_def transformDistance_def power2_eq_square

section \<open>Obstacle avoidance\<close>

lemma active_branch_outside:
  fixes a b c :: real
  assumes "0 < a" "0 \<le> b * b - 4 * a * c" "b + sqrt (b * b - 4 * a * c) \<le> 0"
  shows "0 \<le> c"
proof -
  define delta where "delta = b * b - 4 * a * c"
  have s: "0 \<le> sqrt delta" using assms(2) by (simp add: delta_def)
  have "sqrt delta \<le> - b" using assms(3) by (simp add: delta_def)
  then have "(sqrt delta)\<^sup>2 \<le> (- b)\<^sup>2"
    using s by (intro power_mono) simp_all
  then have "delta \<le> b * b"
    using assms(2) by (simp add: delta_def power2_eq_square)
  then have "0 \<le> a * c" by (simp add: delta_def)
  then show ?thesis
    using assms(1) by (simp add: zero_le_mult_iff)
qed

lemma dot_commute: "dot a b = dot b a"
  by (simp add: dot_def mult.commute)


lemma projected_length2:
  assumes "dot n n = 1"
  shows "dot (w - smul (dot n w) n) (w - smul (dot n w) n) = dot w w - (dot n w)\<^sup>2"
proof -
  have "dot (w - smul d n) (w - smul d n) = dot w w - 2 * d * dot n w + d\<^sup>2 * dot n n" for d
    by (simp add: dot_def power2_eq_square algebra_simps)
  then show ?thesis
    by (simp add: assms power2_eq_square)
qed

lemma tangent_argument_nonneg:
  assumes n: "dot n n = 1" and out: "r2 \<le> dot w w" and d: "(dot n w)\<^sup>2 \<le> r2"
    and cp: "vlength (w - smul (dot n w) n) \<noteq> 0"
  shows "0 \<le> 1 - sqrt (r2 - (dot n w)\<^sup>2) / vlength (w - smul (dot n w) n)
                 * (sqrt (r2 - (dot n w)\<^sup>2) / vlength (w - smul (dot n w) n))"
proof -
  define s where "s = sqrt (r2 - (dot n w)\<^sup>2)"
  define CP where "CP = vlength (w - smul (dot n w) n)"
  have s2: "s * s = r2 - (dot n w)\<^sup>2"
    using d by (simp add: s_def)
  have cp2: "CP * CP = dot w w - (dot n w)\<^sup>2"
    using projected_length2 [OF n, of w] dot_nonneg [of "w - smul (dot n w) n"]
    by (simp add: CP_def vlength_def)
  have "0 < CP\<^sup>2"
    using cp by (simp add: CP_def)
  then have pos: "0 < CP * CP"
    by (simp add: power2_eq_square)
  have "s * s \<le> CP * CP"
    using out by (simp add: s2 cp2)
  then have "(s * s) / (CP * CP) \<le> 1"
    using pos by (simp add: divide_le_eq)
  then show ?thesis
    by (simp add: s_def [symmetric] CP_def [symmetric])
qed




section \<open>The force engine\<close>

lemma update_isolated:
  assumes i: "i < length (boids F)"
    and far: "\<forall>t<length (boids F). t \<noteq> i \<longrightarrow>
               (if PerceptionRadius F = 0 then 1 else PerceptionRadius F)
                 < vlength (position (boids F ! t) - position (boids F ! i))"
  shows "boids (update dt F) ! i =
           integrate dt F ((boids F ! i)\<lparr>acceleration :=
              clampLength (smul (SteeringWeight F) (steering F (boids F ! i))) (MaxAcceleration F)\<rparr>)"
proof -
  define F1 where "F1 = F\<lparr>FOVAngleDegCompareValue := cos (TWO_PI * FOVAngleDeg F / 360)\<rparr>"
  have f1: "boids F1 = boids F" "PerceptionRadius F1 = PerceptionRadius F"
    "SteeringWeight F1 = SteeringWeight F" "MaxAcceleration F1 = MaxAcceleration F"
    by (simp_all add: F1_def)
  have st: "steering F1 = steering F"
    by (rule steering_cong) (simp_all add: F1_def)
  have "boids (update dt F) ! i = integrate dt F (boids (updateAcceleration F1) ! i)"
    using update_nth [OF i, of dt] by (auto simp add: F1_def)
  moreover have "boids (updateAcceleration F1) ! i =
           (boids F1 ! i)\<lparr>acceleration :=
              clampLength (smul (SteeringWeight F1) (steering F1 (boids F1 ! i))) (MaxAcceleration F1)\<rparr>"
    by (rule updateAcceleration_isolated) (use i far in \<open>auto simp add: f1\<close>)
  ultimately show ?thesis
    by (simp add: f1 st)
qed

lemma single_agent_isolated:
  assumes "length (boids F) = 1"
  shows "\<forall>t<length (boids F). t \<noteq> 0 \<longrightarrow>
               (if PerceptionRadius F = 0 then 1 else PerceptionRadius F)
                 < vlength (position (boids F ! t) - position (boids F ! 0))"
  using assms by simp

lemma single_agent_alone:
  assumes "length (boids F) = 1"
  shows "getNearbyBoids (buildVoxelCache F) 0 = []"
proof (rule getNearbyBoids_empty)
  fix k t
  assume "t \<in> set (cached (voxelCache (buildVoxelCache F)) k)"
  then have "t = 0"
    using assms by (auto simp add: cached_buildVoxelCache split: if_splits)
  then show "\<not> perceives (buildVoxelCache F) 0 t"
    by (simp add: perceives_def)
qed

text \<open>
  C1, evaluated on the code. In the target-seeking scenario (one agent at the origin, the
  single target \<open>(10, 0, 0)\<close>, LINEAR curve, steering weight 1, all other weights 0) the
  steering contribution and the stored acceleration are zero, although the agent does not
  coincide with its target: \<^verbatim>\<open>glm::any(glm::equal(steeringTarget, b.position))\<close> holds as
  soon as one component agrees, here \<open>y\<close> and \<open>z\<close>. The claim expects the unit vector
  \<open>(1, 0, 0)\<close> scaled by 10 and clamped to \<open>MaxAcceleration = 5\<close>, which is \<open>(5, 0, 0)\<close>.
\<close>

theorem target_seeking_acceleration_is_zero:
  "steering target_seeking_flock (boids target_seeking_flock ! 0) = Vec3 0 0 0 \<and>
   acceleration (boids (updateAcceleration target_seeking_flock) ! 0) = Vec3 0 0 0 \<and>
   clampLength (smul 10 (Vec3 1 0 0)) (MaxAcceleration target_seeking_flock) = Vec3 5 0 0"
proof -
  have len: "length (boids target_seeking_flock) = 1"
    by (simp add: target_seeking_flock_def eval_simps)
  have s: "steering target_seeking_flock (boids target_seeking_flock ! 0) = Vec3 0 0 0"
    by (simp add: steering_def chooseTarget_def target_seeking_flock_def eval_simps)
  have "acceleration (boids (updateAcceleration target_seeking_flock) ! 0) =
          clampLength (smul (SteeringWeight target_seeking_flock) (Vec3 0 0 0))
                      (MaxAcceleration target_seeking_flock)"
    using updateAcceleration_isolated [OF _ single_agent_isolated [OF len]] len
    by (simp add: s)
  moreover have "clampLength (smul (SteeringWeight target_seeking_flock) (Vec3 0 0 0))
                      (MaxAcceleration target_seeking_flock) = Vec3 0 0 0"
    by (simp add: target_seeking_flock_def eval_simps)
  moreover have "clampLength (smul 10 (Vec3 1 0 0)) (MaxAcceleration target_seeking_flock) = Vec3 5 0 0"
    by (simp add: target_seeking_flock_def eval_simps)
  ultimately show ?thesis using s by simp
qed

section \<open>The integrator\<close>

lemma scenario_step:
  assumes len: "length (boids F) = 1" and nt: "SteeringTargets F = []"
    and cap: "0 \<le> MaxAcceleration F" and acc: "acceleration (boids F ! 0) = 0"
  shows "boids (update dt F) ! 0 = integrate dt F (boids F ! 0)"
proof -
  have "(boids F ! 0)\<lparr>acceleration := 0\<rparr> = boids F ! 0"
    using acc by (metis Boid.surjective Boid.update_convs(3))
  then show ?thesis
    using update_isolated [OF _ single_agent_isolated [OF len], of dt] len
    by (simp add: steering_no_targets [OF nt] clampLength_zero [OF cap])
qed





text \<open>
  C3, evaluated on the code. The statement \<^verbatim>\<open>boid.velocity += 0.1f * boid.position -
  CollisionCenter\<close> adds \<open>0.1 * position - center\<close>, not \<open>0.1 * (position - center)\<close>. With
  the unit sphere centred at \<open>(10, 0, 0)\<close> and the agent at \<open>(10.6, 0, 0)\<close> after the
  integration, strictly inside the sphere, the correction is \<open>-14.9\<close> times the vector from
  the centre to the agent: it points at the centre, and the velocity \<open>(1, 0, 0)\<close>, which led
  away from the centre, becomes \<open>(-7.94, 0, 0)\<close>.
\<close>

theorem safety_correction_points_inward:
  "boids (update (1 / 10) shifted_sphere_flock) ! 0
     = new_Boid (Vec3 (106 / 10) 0 0) (Vec3 (- (794 / 100)) 0 0) \<and>
   insideSphere shifted_sphere_flock (Vec3 (106 / 10) 0 0) \<and>
   safetyCorrection shifted_sphere_flock (new_Boid (Vec3 (106 / 10) 0 0) (Vec3 1 0 0))
     = smul (- (149 / 10)) (Vec3 (106 / 10) 0 0 - CollisionCenter shifted_sphere_flock)"
proof -
  have "boids (update (1 / 10) shifted_sphere_flock) ! 0
          = integrate (1 / 10) shifted_sphere_flock (boids shifted_sphere_flock ! 0)"
    by (rule scenario_step) (simp_all add: shifted_sphere_flock_def eval_simps)
  also have "\<dots> = new_Boid (Vec3 (106 / 10) 0 0) (Vec3 (- (794 / 100)) 0 0)"
    by (simp add: integrate_def avoidanceDirection_def shifted_sphere_flock_def eval_simps Let_def
        insideSphere_def safetyCorrection_def RESPONSE_def)
  finally show ?thesis
    by (simp add: insideSphere_def safetyCorrection_def shifted_sphere_flock_def eval_simps)
qed

section \<open>The isolated agent\<close>



lemma add_zero_vec3 [simp]: "a + (0::vec3) = a"
  by (simp add: vec3_eq_iff)

lemma smul_one [simp]: "smul 1 a = a"
  by (simp add: vec3_eq_iff)





section \<open>The neighbourhood query in rounded arithmetic\<close>

subsection \<open>The cells that the query visits\<close>

lemma checkVoxelForBoids_r_hits:
  "checkVoxelForBoids_r rnd F i res k = res @ cell_hits_r rnd F i k"
  by (simp add: checkVoxelForBoids_r_def cell_hits_r_def cached_def fold_collect split: option.split)

lemma loop_z_r_fold:
  "fold (nearby_loop_z_r rnd F i) [0..<3] (vp, res) =
     ((voxel_z_add rnd 1 ^^ 3) vp,
      res @ concat (map (\<lambda>k. cell_hits_r rnd F i ((voxel_z_add rnd 1 ^^ k) vp)) [0..<3]))"
  by (rule fold_scan) (simp add: nearby_loop_z_r_def checkVoxelForBoids_r_hits)

lemma loop_y_r_fold:
  "fold (nearby_loop_y_r rnd F i) [0..<3] (vp, res) =
     ((next_column rnd ^^ 3) vp,
      res @ concat (map (\<lambda>ky. concat (map (\<lambda>kz.
              cell_hits_r rnd F i ((voxel_z_add rnd 1 ^^ kz) ((next_column rnd ^^ ky) vp)))
            [0..<3])) [0..<3]))"
  by (rule fold_scan) (simp add: nearby_loop_y_r_def loop_z_r_fold next_column_def)

lemma loop_x_r_fold:
  "fold (nearby_loop_x_r rnd F i) [0..<3] (vp, res) =
     ((next_slab rnd ^^ 3) vp,
      res @ concat (map (\<lambda>kx. concat (map (\<lambda>ky. concat (map (\<lambda>kz.
              cell_hits_r rnd F i
                ((voxel_z_add rnd 1 ^^ kz) ((next_column rnd ^^ ky) ((next_slab rnd ^^ kx) vp))))
            [0..<3])) [0..<3])) [0..<3]))"
  by (rule fold_scan) (simp add: nearby_loop_x_r_def loop_y_r_fold next_slab_def)

lemma getNearbyBoids_r_scanned:
  "set (getNearbyBoids_r rnd F i) =
     (\<Union>k\<in>set (scannedVoxels rnd (first_voxel rnd F i)). set (cell_hits_r rnd F i k))"
  by (simp add: getNearbyBoids_r_def loop_x_r_fold scannedVoxels_def)

lemma cached_fold_push_r:
  "cached (fold (cache_push_r rnd F) [0..<n] Map.empty) k =
     filter (\<lambda>t. getVoxelForBoid_r rnd F (boids F ! t) = k) [0..<n]"
  by (induction n) (simp_all add: cache_push_r_def cached_def Let_def)

lemma cached_buildVoxelCache_r:
  "cached (voxelCache (buildVoxelCache_r rnd F)) k =
     filter (\<lambda>t. getVoxelForBoid_r rnd F (boids F ! t) = k) [0..<length (boids F)]"
  by (simp add: buildVoxelCache_r_def cached_fold_push_r)

lemma buildVoxelCache_r_frame [simp]:
  "boids (buildVoxelCache_r rnd F) = boids F"
  "PerceptionRadius (buildVoxelCache_r rnd F) = PerceptionRadius F"
  "FOVAngleDegCompareValue (buildVoxelCache_r rnd F) = FOVAngleDegCompareValue F"
  "perceives_r rnd' (buildVoxelCache_r rnd F) = perceives_r rnd' F"
  "make_nearby_r rnd' (buildVoxelCache_r rnd F) = make_nearby_r rnd' F"
  "getVoxelForBoid_r rnd' (buildVoxelCache_r rnd F) = getVoxelForBoid_r rnd' F"
  "first_voxel rnd' (buildVoxelCache_r rnd F) = first_voxel rnd' F"
  by (simp_all add: buildVoxelCache_r_def perceives_r_def make_nearby_r_def
        getVoxelForBoid_r_def first_voxel_def fun_eq_iff)

lemma grid_query_set_r:
  "set (getNearbyBoids_r rnd (buildVoxelCache_r rnd F) i) =
     make_nearby_r rnd F i `
       {t. t < length (boids F) \<and> perceives_r rnd F i t \<and>
           getVoxelForBoid_r rnd F (boids F ! t) \<in> set (scannedVoxels rnd (first_voxel rnd F i))}"
  by (auto simp add: getNearbyBoids_r_scanned cell_hits_r_def cached_buildVoxelCache_r)

lemma bruteForceNeighbors_r_set:
  "set (bruteForceNeighbors_r rnd (buildVoxelCache_r rnd' F) i) =
     make_nearby_r rnd F i ` {t. t < length (boids F) \<and> perceives_r rnd F i t}"
  by (auto simp add: bruteForceNeighbors_r_def)

lemma boid_make_nearby_r [simp]: "boid (make_nearby_r rnd F i t) = t"
  by (simp add: make_nearby_r_def Let_def)

text \<open>With the identity as rounding the definitions are those of the exact model.\<close>

lemma exact_vector_ops [simp]:
  "rsub (\<lambda>x. x) a b = a - b"
  "rdot (\<lambda>x. x) a b = dot a b"
  "rlength (\<lambda>x. x) a = vlength a"
  "voxel_x_add (\<lambda>x. x) k vp = vp + Vec3 k 0 0"
  "voxel_y_add (\<lambda>x. x) k vp = vp + Vec3 0 k 0"
  "voxel_z_add (\<lambda>x. x) k vp = vp + Vec3 0 0 k"
  by (simp_all add: rsub_def rdot_def rlength_def vlength_def dot_def vec3_eq_iff
        voxel_x_add_def voxel_y_add_def voxel_z_add_def)

lemma exact_query [simp]:
  "getVoxelForBoid_r (\<lambda>x. x) = getVoxelForBoid"
  "perceives_r (\<lambda>x. x) = perceives"
  "make_nearby_r (\<lambda>x. x) = make_nearby"
  by (simp_all add: fun_eq_iff getVoxelForBoid_r_def getVoxelForBoid_def perceives_r_def
        perceives_def compareValue_r_def compareValue_def make_nearby_r_def make_nearby_def
        Let_def)

lemma exact_cache [simp]: "buildVoxelCache_r (\<lambda>x. x) = buildVoxelCache"
proof -
  have cp: "cache_push_r (\<lambda>x. x) = cache_push"
    by (simp add: fun_eq_iff cache_push_r_def cache_push_def)
  show ?thesis
    by (simp add: fun_eq_iff buildVoxelCache_r_def buildVoxelCache_def cp)
qed

lemma exact_check [simp]: "checkVoxelForBoids_r (\<lambda>x. x) = checkVoxelForBoids"
  unfolding fun_eq_iff checkVoxelForBoids_r_def checkVoxelForBoids_def exact_query by simp

lemma exact_getNearbyBoids [simp]: "getNearbyBoids_r (\<lambda>x. x) = getNearbyBoids"
proof -
  have z: "nearby_loop_z_r (\<lambda>x. x) = nearby_loop_z"
    by (simp add: fun_eq_iff nearby_loop_z_r_def nearby_loop_z_def)
  have s: "vp + Vec3 0 0 (- 3) = vp - Vec3 0 0 3" "vp + Vec3 0 (- 3) 0 = vp - Vec3 0 3 0" for vp
    by (simp_all add: vec3_eq_iff)
  have y: "nearby_loop_y_r (\<lambda>x. x) = nearby_loop_y"
    by (simp add: fun_eq_iff nearby_loop_y_r_def nearby_loop_y_def z s)
  have x: "nearby_loop_x_r (\<lambda>x. x) = nearby_loop_x"
    by (simp add: fun_eq_iff nearby_loop_x_r_def nearby_loop_x_def y s)
  have f: "first_voxel (\<lambda>x. x) F i = getVoxelForBoid F (boids F ! i) - Vec3 1 1 1" for F i
    by (simp add: first_voxel_def vec3_eq_iff)
  show ?thesis
    by (simp add: fun_eq_iff getNearbyBoids_r_def getNearbyBoids_def x f)
qed

lemma exact_bruteForce [simp]: "bruteForceNeighbors_r (\<lambda>x. x) = bruteForceNeighbors"
  by (simp add: fun_eq_iff bruteForceNeighbors_r_def bruteForceNeighbors_def)

subsection \<open>Values of the binary32 rounding\<close>

lemma pow2_powr: "pow2 e = 2 powr (of_int e)"
proof (cases "0 \<le> e")
  case True
  then show ?thesis
    by (simp add: pow2_def powr_realpow [symmetric])
next
  case False
  then have e: "real (nat (- e)) = - of_int e" by simp
  have "2 ^ nat (- e) = (2::real) powr real (nat (- e))"
    by (simp add: powr_realpow)
  then have "pow2 e = 1 / 2 powr (- of_int e)"
    using False by (simp add: pow2_def e)
  also have "\<dots> = 2 powr of_int e"
    by (simp add: powr_minus_divide)
  finally show ?thesis .
qed

lemma binary32_in_binade:
  assumes "pow2 k \<le> \<bar>x\<bar>" "\<bar>x\<bar> < pow2 (k + 1)"
  shows "binary32 x = of_int (round_half_even (x / pow2 (max (- 149) (k - 23))))
                        * pow2 (max (- 149) (k - 23))"
proof -
  have "0 < pow2 k" by (simp add: pow2_powr)
  then have pos: "0 < \<bar>x\<bar>" using assms(1) by linarith
  then have nz: "x \<noteq> 0" by auto
  have "\<lfloor>log 2 \<bar>x\<bar>\<rfloor> = k"
    using assms pos by (simp add: floor_log_eq_powr_iff pow2_powr)
  then show ?thesis
    using nz by (simp add: binary32_def Let_def)
qed

lemma round_half_even_int [simp]: "round_half_even (of_int n) = n"
  by (simp add: round_half_even_def)

lemma binary32_0 [simp]: "binary32 0 = 0"
  by (simp add: binary32_def)

lemma binary32_1 [simp]: "binary32 1 = 1"
  using binary32_in_binade [of 0 1] round_half_even_int [of 8388608]
  by (simp add: pow2_def)

lemma binary32_m1 [simp]: "binary32 (- 1) = - 1"
  using binary32_in_binade [of 0 "- 1"] round_half_even_int [of "- 8388608"]
  by (simp add: pow2_def)

lemma binary32_2 [simp]: "binary32 2 = 2"
  using binary32_in_binade [of 1 2] round_half_even_int [of 8388608]
  by (simp add: pow2_def)

lemma binary32_below_one [simp]: "binary32 (16777215 / 16777216) = 16777215 / 16777216"
  using binary32_in_binade [of "- 1" "16777215 / 16777216"] round_half_even_int [of 16777215]
  by (simp add: pow2_def)

lemma round_half_even_tie: "round_half_even (16777217 / 2) = 8388608"
proof -
  have "\<lfloor>16777217 / 2 :: real\<rfloor> = 8388608" by linarith
  then show ?thesis by (simp add: round_half_even_def)
qed

lemma binary32_above_one [simp]: "binary32 (16777217 / 16777216) = 1"
  using binary32_in_binade [of 0 "16777217 / 16777216"] round_half_even_tie
  by (simp add: pow2_def)

subsection \<open>Two flocks of two agents\<close>

lemma vx_voxel_add [simp]:
  "vx (voxel_x_add rnd k vp) = rnd (vx vp + k)"
  "vx (voxel_y_add rnd k vp) = vx vp"
  "vx (voxel_z_add rnd k vp) = vx vp"
  by (simp_all add: voxel_x_add_def voxel_y_add_def voxel_z_add_def)

lemma vx_z_steps [simp]: "vx ((voxel_z_add rnd k ^^ n) vp) = vx vp"
  by (induction n) simp_all

lemma vx_next_column [simp]: "vx (next_column rnd vp) = vx vp"
  by (simp add: next_column_def)

lemma vx_columns [simp]: "vx ((next_column rnd ^^ n) vp) = vx vp"
  by (induction n) simp_all

lemma vx_next_slab [simp]: "vx (next_slab rnd vp) = rnd (vx vp + 1)"
  by (simp add: next_slab_def)

lemma vx_slabs: "vx ((next_slab rnd ^^ n) vp) = ((\<lambda>x. rnd (x + 1)) ^^ n) (vx vp)"
  by (induction n) simp_all

lemma vx_scanned:
  assumes "k \<in> set (scannedVoxels rnd v0)"
  shows "vx k = vx v0 \<or> vx k = rnd (vx v0 + 1) \<or> vx k = rnd (rnd (vx v0 + 1) + 1)"
proof -
  from assms obtain n where "n < 3" "vx k = ((\<lambda>x. rnd (x + 1)) ^^ n) (vx v0)"
    by (auto simp add: scannedVoxels_def vx_slabs)
  moreover from \<open>n < 3\<close> have "n = 0 \<or> n = 1 \<or> n = 2" by linarith
  ultimately show ?thesis
    by (auto simp add: numeral_2_eq_2)
qed

lemma rounding_flock_voxels:
  "getVoxelForBoid_r binary32 rounding_flock (boids rounding_flock ! 0) = Vec3 0 0 0"
  "getVoxelForBoid_r binary32 rounding_flock (boids rounding_flock ! 1) = Vec3 2 0 0"
  "getVoxelForBoid_r binary32 rounding_flock (boids rounding_flock ! Suc 0) = Vec3 2 0 0"
  by (simp_all add: getVoxelForBoid_r_def rounding_flock_def eval_simps trunc_int_def)

lemma rounding_flock_boids:
  "boids rounding_flock ! 0 = new_Boid (Vec3 (16777215 / 16777216) 0 0) (Vec3 0 0 0)"
  "boids rounding_flock ! 1 = new_Boid (Vec3 2 0 0) (Vec3 0 0 0)"
  "boids rounding_flock ! Suc 0 = new_Boid (Vec3 2 0 0) (Vec3 0 0 0)"
  by (simp_all add: rounding_flock_def eval_simps)

lemma rounding_flock_difference:
  "rsub binary32 (position (boids rounding_flock ! 1)) (position (boids rounding_flock ! 0))
     = Vec3 1 0 0"
proof -
  have "(2::real) - 16777215 / 16777216 = 16777217 / 16777216" by simp
  then have "binary32 (2 - 16777215 / 16777216) = 1"
    using binary32_above_one by simp
  then show ?thesis
    by (simp add: rsub_def rounding_flock_boids new_Boid_def)
qed

lemma rounding_flock_distance:
  "rlength binary32 (rsub binary32 (position (boids rounding_flock ! 1))
     (position (boids rounding_flock ! 0))) = 1"
  "rlength binary32 (velocity (boids rounding_flock ! 0)) = 0"
  unfolding rounding_flock_difference
  by (simp_all add: rlength_def rdot_def rounding_flock_boids new_Boid_def)

lemma rounding_flock_perceives: "perceives_r binary32 rounding_flock 0 1"
proof -
  have "PerceptionRadius rounding_flock = 1"
    by (simp add: rounding_flock_def eval_simps)
  then show ?thesis
    using rounding_flock_distance unfolding perceives_r_def Let_def by simp
qed

lemma rounding_flock_query_empty:
  "getNearbyBoids_r binary32 (buildVoxelCache_r binary32 rounding_flock) 0 = []"
proof -
  have len: "length (boids rounding_flock) = 2"
    by (simp add: rounding_flock_def eval_simps)
  have v0: "vx (first_voxel binary32 rounding_flock 0) = - 1"
    by (simp add: first_voxel_def rounding_flock_voxels)
  have far: "getVoxelForBoid_r binary32 rounding_flock (boids rounding_flock ! 1)
               \<notin> set (scannedVoxels binary32 (first_voxel binary32 rounding_flock 0))"
  proof
    assume "getVoxelForBoid_r binary32 rounding_flock (boids rounding_flock ! 1)
               \<in> set (scannedVoxels binary32 (first_voxel binary32 rounding_flock 0))"
    from vx_scanned [OF this] show False
      by (simp add: rounding_flock_voxels v0)
  qed
  have "t = 0 \<or> t = 1" if "t < length (boids rounding_flock)" for t
    using that len by linarith
  moreover have "\<not> perceives_r binary32 rounding_flock 0 0"
    by (simp add: perceives_r_def)
  ultimately have "set (getNearbyBoids_r binary32 (buildVoxelCache_r binary32 rounding_flock) 0) = {}"
    using far by (auto simp add: grid_query_set_r)
  then show ?thesis by simp
qed

lemma in_concat_map: "k \<in> set ks \<Longrightarrow> x \<in> set (f k) \<Longrightarrow> x \<in> set (concat (map f ks))"
  by auto

lemma scanned_voxel:
  assumes "kx < 3" "ky < 3" "kz < 3"
  shows "(voxel_z_add rnd 1 ^^ kz) ((next_column rnd ^^ ky) ((next_slab rnd ^^ kx) v0))
           \<in> set (scannedVoxels rnd v0)"
proof -
  have z: "(voxel_z_add rnd 1 ^^ kz) ((next_column rnd ^^ ky) ((next_slab rnd ^^ kx) v0))
          \<in> set (map (\<lambda>kz. (voxel_z_add rnd 1 ^^ kz) ((next_column rnd ^^ ky) ((next_slab rnd ^^ kx) v0)))
                 [0..<3])"
    using assms(3) by simp
  have y: "ky \<in> set [0..<3]" and x: "kx \<in> set [0..<3]"
    using assms(1,2) by simp_all
  show ?thesis
    unfolding scannedVoxels_def
    by (rule in_concat_map [OF x], rule in_concat_map [OF y], rule z)
qed

lemma tailing_flock_boids:
  "boids tailing_flock ! 0 = new_Boid (Vec3 0 0 0) (Vec3 1 0 0)"
  "boids tailing_flock ! 1 = new_Boid (Vec3 1 0 0) (Vec3 0 0 0)"
  "boids tailing_flock ! Suc 0 = new_Boid (Vec3 1 0 0) (Vec3 0 0 0)"
  "length (boids tailing_flock) = 2"
  "PerceptionRadius tailing_flock = 1"
  "FOVAngleDegCompareValue tailing_flock = 0"
  by (simp_all add: tailing_flock_def eval_simps)

lemma tailing_flock_voxels:
  "getVoxelForBoid_r binary32 tailing_flock (boids tailing_flock ! 0) = Vec3 0 0 0"
  "getVoxelForBoid_r binary32 tailing_flock (boids tailing_flock ! 1) = Vec3 1 0 0"
  "getVoxelForBoid_r binary32 tailing_flock (boids tailing_flock ! Suc 0) = Vec3 1 0 0"
  by (simp_all add: getVoxelForBoid_r_def tailing_flock_boids new_Boid_def trunc_int_def)

lemma tailing_flock_scanned:
  "getVoxelForBoid_r binary32 tailing_flock (boids tailing_flock ! 1)
     \<in> set (scannedVoxels binary32 (first_voxel binary32 tailing_flock 0))"
proof -
  have "(voxel_z_add binary32 1 ^^ 1) ((next_column binary32 ^^ 1) ((next_slab binary32 ^^ 2)
          (first_voxel binary32 tailing_flock 0))) = Vec3 1 0 0"
    by (simp add: first_voxel_def tailing_flock_voxels next_slab_def next_column_def
        voxel_x_add_def voxel_y_add_def voxel_z_add_def numeral_2_eq_2 numeral_3_eq_3)
  then show ?thesis
    using scanned_voxel [of 2 1 1 binary32 "first_voxel binary32 tailing_flock 0"]
    by (simp add: tailing_flock_voxels)
qed

lemma tailing_flock_lengths:
  "rsub binary32 (position (boids tailing_flock ! 1)) (position (boids tailing_flock ! 0))
     = Vec3 1 0 0"
  "rlength binary32 (Vec3 1 0 0) = 1"
  "rlength binary32 (velocity (boids tailing_flock ! 0)) = 1"
  "rdot binary32 (- velocity (boids tailing_flock ! 0)) (Vec3 1 0 0) = - 1"
  by (simp_all add: rsub_def rlength_def rdot_def tailing_flock_boids new_Boid_def
      vec3_ctor_simps)

lemma tailing_flock_perceives: "perceives_r binary32 tailing_flock 0 1"
  unfolding perceives_r_def compareValue_r_def Let_def tailing_flock_lengths
  by (simp add: tailing_flock_boids)

subsection \<open>Neighbour equivalence and the inclusion criterion\<close>

text \<open>
  C5, as amended. Neighbour equivalence is an inclusion in rounded arithmetic and an
  equality in exact arithmetic. For every rounding function, every agent collection and
  every non-zero perception radius (\<^verbatim>\<open>updateAcceleration\<close> runs the query after it has
  replaced a zero radius), the query, \<^verbatim>\<open>buildVoxelCache\<close> followed by \<^verbatim>\<open>getNearbyBoids\<close>,
  returns as a set exactly those candidates of the brute-force scan, under the identical
  distance and field-of-view predicate, whose cell is one of the 27 cells that the
  query visits. So it returns a subset of what the brute-force scan returns, and with
  the identity as rounding, that is in exact arithmetic, the two sets are equal.
\<close>

theorem grid_query_within_brute_force:
  assumes "PerceptionRadius F \<noteq> 0"
  shows "set (getNearbyBoids_r rnd (buildVoxelCache_r rnd F) i)
           = {nb \<in> set (bruteForceNeighbors_r rnd (buildVoxelCache_r rnd F) i).
                getVoxelForBoid_r rnd F (boids F ! boid nb)
                  \<in> set (scannedVoxels rnd (first_voxel rnd F i))} \<and>
         set (getNearbyBoids_r rnd (buildVoxelCache_r rnd F) i)
           \<subseteq> set (bruteForceNeighbors_r rnd (buildVoxelCache_r rnd F) i) \<and>
         set (getNearbyBoids_r (\<lambda>x. x) (buildVoxelCache_r (\<lambda>x. x) F) i)
           = set (bruteForceNeighbors_r (\<lambda>x. x) (buildVoxelCache_r (\<lambda>x. x) F) i)"
proof -
  have a: "set (getNearbyBoids_r rnd (buildVoxelCache_r rnd F) i)
           = {nb \<in> set (bruteForceNeighbors_r rnd (buildVoxelCache_r rnd F) i).
                getVoxelForBoid_r rnd F (boids F ! boid nb)
                  \<in> set (scannedVoxels rnd (first_voxel rnd F i))}"
    by (auto simp add: grid_query_set_r bruteForceNeighbors_r_set)
  then have b: "set (getNearbyBoids_r rnd (buildVoxelCache_r rnd F) i)
           \<subseteq> set (bruteForceNeighbors_r rnd (buildVoxelCache_r rnd F) i)"
    by blast
  have c: "set (getNearbyBoids_r (\<lambda>x. x) (buildVoxelCache_r (\<lambda>x. x) F) i)
           = set (bruteForceNeighbors_r (\<lambda>x. x) (buildVoxelCache_r (\<lambda>x. x) F) i)"
    using grid_query_set [OF assms, of i]
    by (simp add: bruteForceNeighbors_set)
  show ?thesis
    using a b c by blast
qed

theorem grid_query_within_brute_force_witness:
  "PerceptionRadius tailing_flock \<noteq> 0 \<and>
   make_nearby_r binary32 tailing_flock 0 1
     \<in> set (getNearbyBoids_r binary32 (buildVoxelCache_r binary32 tailing_flock) 0) \<and>
   set (getNearbyBoids_r binary32 (buildVoxelCache_r binary32 tailing_flock) 0)
     \<subseteq> set (bruteForceNeighbors_r binary32 (buildVoxelCache_r binary32 tailing_flock) 0) \<and>
   set (getNearbyBoids_r (\<lambda>x. x) (buildVoxelCache_r (\<lambda>x. x) tailing_flock) 0)
     = set (bruteForceNeighbors_r (\<lambda>x. x) (buildVoxelCache_r (\<lambda>x. x) tailing_flock) 0)"
proof -
  have h: "PerceptionRadius tailing_flock \<noteq> 0"
    by (simp add: tailing_flock_boids)
  note q = grid_query_within_brute_force [OF h, of binary32 0]
  have br: "make_nearby_r binary32 tailing_flock 0 1
     \<in> set (bruteForceNeighbors_r binary32 (buildVoxelCache_r binary32 tailing_flock) 0)"
    using tailing_flock_perceives
    by (simp add: bruteForceNeighbors_r_set tailing_flock_boids)
  have sc: "getVoxelForBoid_r binary32 tailing_flock
              (boids tailing_flock ! boid (make_nearby_r binary32 tailing_flock 0 1))
            \<in> set (scannedVoxels binary32 (first_voxel binary32 tailing_flock 0))"
    unfolding boid_make_nearby_r by (rule tailing_flock_scanned)
  have m: "make_nearby_r binary32 tailing_flock 0 1
     \<in> set (getNearbyBoids_r binary32 (buildVoxelCache_r binary32 tailing_flock) 0)"
    unfolding conjunct1 [OF q] using br sc by (intro CollectI conjI)
  show ?thesis
    using h m conjunct2 [OF q] by (intro conjI) (simp_all only: simp_thms)
qed

text \<open>
  The claim as stated, for every agent collection and every radius, fails in binary32.
  With perception radius 1, an agent at rest at \<open>x = 1 - 2\<^sup>-\<^sup>2\<^sup>4\<close> and another at \<open>x = 2\<close>,
  the difference of the positions, \<open>1 + 2\<^sup>-\<^sup>2\<^sup>4\<close>, rounds to 1, so the predicate accepts the
  second agent at distance 1 and the brute-force scan returns it. The cells of the two
  agents have \<open>x = 0\<close> and \<open>x = 2\<close>; the query visits \<open>x = -1, 0, 1\<close> and returns nothing.
\<close>

theorem grid_query_counterexample:
  "getNearbyBoids_r binary32 (buildVoxelCache_r binary32 rounding_flock) 0 = [] \<and>
   make_nearby_r binary32 rounding_flock 0 1
     \<in> set (bruteForceNeighbors_r binary32 (buildVoxelCache_r binary32 rounding_flock) 0) \<and>
   distance (make_nearby_r binary32 rounding_flock 0 1) = 1 \<and>
   PerceptionRadius rounding_flock = 1"
proof -
  have "make_nearby_r binary32 rounding_flock 0 1
     \<in> set (bruteForceNeighbors_r binary32 (buildVoxelCache_r binary32 rounding_flock) 0)"
    using rounding_flock_perceives
    by (simp add: bruteForceNeighbors_r_set) (simp add: rounding_flock_def eval_simps)
  moreover have "distance (make_nearby_r binary32 rounding_flock 0 1) = 1"
    using rounding_flock_distance(1) unfolding make_nearby_r_def Let_def by simp
  moreover have "PerceptionRadius rounding_flock = 1"
    by (simp add: rounding_flock_def eval_simps)
  ultimately show ?thesis
    using rounding_flock_query_empty by simp
qed





end
